theory Spec2Isabelle
  imports Main "HOL-Library.Sublist"
begin

section \<open>Launch preparation of the Minecraft launcher core\<close>

text \<open>
  A shallow embedding of package \<open>launcher\<close> (\<open>launcher.go\<close>): the version document and its
  inheritance merge (\<open>loadVersionJSON\<close>), the OS rules of a library
  (\<open>shouldIncludeLibrary\<close>), the classpath (\<open>buildClasspath\<close>), the extraction of native
  libraries (\<open>extractJar\<close>, \<open>extractNativesFromLibraries\<close>), the legacy argument template
  (\<open>parseMinecraftArguments\<close>) and the command itself (\<open>PrepareCMD\<close>).

  Go strings are byte strings: \<open>string\<close>. Every function that emits events returns the list
  of the events it emitted, in order; a function that writes files takes the file system
  and returns the new one. Errors are values of the type \<open>error\<close>.
\<close>

subsection \<open>Functions of package \<open>strings\<close>\<close>

definition HasPrefix :: "string \<Rightarrow> string \<Rightarrow> bool" where
  "HasPrefix s p = prefix p s"

definition HasSuffix :: "string \<Rightarrow> string \<Rightarrow> bool" where
  "HasSuffix s p = prefix (rev p) (rev s)"

fun Contains :: "string \<Rightarrow> string \<Rightarrow> bool" where
  "Contains [] sub = (sub = [])"
| "Contains (c # s) sub = (prefix sub (c # s) \<or> Contains s sub)"

text \<open>\<open>strings.Split(s, sep)\<close> for a separator of one byte, as \<open>buildClasspath\<close> calls it.\<close>

fun Split :: "string \<Rightarrow> char \<Rightarrow> string list" where
  "Split [] sep = [[]]"
| "Split (c # s) sep =
     (if c = sep then [] # Split s sep
      else (case Split s sep of [] \<Rightarrow> [[c]] | p # ps \<Rightarrow> (c # p) # ps))"

text \<open>\<open>strings.Join(elems, sep)\<close>.\<close>

fun JoinStrings :: "string list \<Rightarrow> string \<Rightarrow> string" where
  "JoinStrings [] sep = []"
| "JoinStrings [x] sep = x"
| "JoinStrings (x # y # ys) sep = x @ sep @ JoinStrings (y # ys) sep"

subsection \<open>The version document\<close>

record Artifact =
  Artifact_Path :: string
  Artifact_URL :: string
  Artifact_SHA1 :: string
  Artifact_Size :: int

record Downloads =
  Artifact :: Artifact
  Classifiers :: "(string \<times> Artifact) list"

text \<open>A rule: \<open>Action\<close> and \<open>OS.Name\<close>.\<close>

record Rule =
  Action :: string
  OS_Name :: string

record Library =
  Name :: string
  Downloads :: Downloads
  Rules :: "Rule list"
  Natives :: "(string \<times> string) list"

record AssetIndex =
  AssetIndex_ID :: string
  AssetIndex_SHA1 :: string
  AssetIndex_Size :: int
  AssetIndex_TotalSize :: int
  AssetIndex_URL :: string

text \<open>
  \<open>VersionJSON\<close>. The field \<open>Arguments\<close> (two lists of untyped JSON values) is left out:
  nothing in the package reads it.
\<close>

record VersionJSON =
  ID :: string
  Type :: string
  MainClass :: string
  MinecraftArguments :: string
  InheritsFrom :: string
  MinimumLauncherVersion :: int
  ReleaseTime :: string
  Time :: string
  AssetIndex :: AssetIndex
  Assets :: string
  Libraries :: "Library list"

subsection \<open>Events and errors\<close>

text \<open>
  \<open>E.Emit(name, data)\<close> calls the handlers registered for \<open>name\<close>; the model records the
  call. The data is a string, an integer or a map of strings.
\<close>

datatype payload = PStr string | PInt int | PMap "(string \<times> string) list"

type_synonym event = "string \<times> payload"

text \<open>
  The errors the package builds with \<open>fmt.Errorf\<close>, one constructor for each format
  string; \<open>OSError\<close> is an error of the operating system passed on unchanged.
\<close>

datatype error =
    ReadVersionJSON string
  | ParseVersionJSON string
  | LoadParentVersion string error
  | VersionJarNotFound string
  | VersionAndParentJarNotFound string string
  | OSError string
  | UnsupportedPlatform string
  | ReadNativesDirectory string
  | NoNativesExtracted

subsection \<open>The platform rules of a library\<close>

definition getOSName :: "string \<Rightarrow> string" where
  "getOSName goos =
     (if goos = ''windows'' then ''windows''
      else if goos = ''darwin'' then ''osx''
      else if goos = ''linux'' then ''linux''
      else goos)"

text \<open>The loop of \<open>shouldIncludeLibrary\<close>, with the variable \<open>allowed\<close>.\<close>

fun rules_loop :: "string \<Rightarrow> Rule list \<Rightarrow> bool \<Rightarrow> bool" where
  "rules_loop osName [] allowed = allowed"
| "rules_loop osName (rule # rules) allowed =
     (if Action rule = ''allow'' then
        (if OS_Name rule = '''' \<or> OS_Name rule = osName
         then rules_loop osName rules True
         else rules_loop osName rules allowed)
      else if Action rule = ''disallow'' then
        (if OS_Name rule = '''' \<or> OS_Name rule = osName
         then False
         else rules_loop osName rules allowed)
      else rules_loop osName rules allowed)"

text \<open>\<open>shouldIncludeLibrary\<close>; \<open>goos\<close> is \<open>runtime.GOOS\<close>.\<close>

definition shouldIncludeLibrary :: "string \<Rightarrow> Rule list \<Rightarrow> bool" where
  "shouldIncludeLibrary goos rules =
     (if length rules = 0 then True
      else rules_loop (getOSName goos) rules False)"

text \<open>The words of the rule policy: a rule is scoped to a platform or to none.\<close>

definition rule_matches :: "string \<Rightarrow> Rule \<Rightarrow> bool" where
  "rule_matches platform r = (OS_Name r = '''' \<or> OS_Name r = platform)"

definition deny_fires :: "string \<Rightarrow> Rule \<Rightarrow> bool" where
  "deny_fires platform r = (Action r = ''disallow'' \<and> rule_matches platform r)"

definition allow_fires :: "string \<Rightarrow> Rule \<Rightarrow> bool" where
  "allow_fires platform r = (Action r = ''allow'' \<and> rule_matches platform r)"

subsection \<open>The operating system\<close>

text \<open>
  What the package asks of the Go runtime and of the operating system is a parameter of
  the model, a record of operations on a file system of any type \<open>'fs\<close>:
  \<^item> \<open>GOOS\<close> and \<open>PathListSeparator\<close> are the constants \<open>runtime.GOOS\<close> and
    \<open>os.PathListSeparator\<close>;
  \<^item> \<open>Join\<close>, \<open>FromSlash\<close>, \<open>Base\<close> and \<open>Abs\<close> are the functions of \<open>path/filepath\<close>
    (\<open>Abs\<close> with its error dropped, as \<open>PrepareCMD\<close> drops it), \<open>ToLower\<close> is
    \<open>strings.ToLower\<close>, \<open>Unmarshal\<close> is \<open>json.Unmarshal\<close> into a fresh \<open>VersionJSON\<close>;
  \<^item> \<open>RangeOrder m\<close> is the order in which a \<open>range\<close> loop visits the entries of the map
    \<open>m\<close>, which Go leaves open;
  \<^item> \<open>Stat\<close>, \<open>ReadFile\<close> and \<open>ReadDir\<close> read the file system (\<open>ReadDir\<close> gives the
    names of the entries and the error, if any), \<open>MkdirAll\<close>, \<open>Create\<close> and \<open>Copy\<close> write
    it: \<open>Create\<close> is \<open>os.Create\<close> (\<open>None\<close> when it fails), \<open>Copy fs path data\<close> is
    \<open>io.Copy\<close> of \<open>data\<close> into the file just created, with its success;
  \<^item> \<open>Walk fs root\<close> is the sequence of calls that \<open>filepath.Walk\<close> makes to its
    function, read off the file system as it is when the walk starts; \<open>OpenReader\<close> is
    \<open>zip.OpenReader\<close>, giving the files of the archive.
\<close>

datatype stat_result = Found | NotExist | StatError

text \<open>
  A file of a zip archive: its name, whether it is a directory, and what \<open>Open\<close> gives:
  \<open>None\<close> when it fails, else the bytes read and whether reading them ended without
  error.
\<close>

record zip_file =
  zip_Name :: string
  zip_IsDir :: bool
  zip_Open :: "(string \<times> bool) option"

text \<open>One call of the function given to \<open>filepath.Walk\<close>: \<open>path\<close>, \<open>info\<close> and \<open>err\<close>.\<close>

record walk_call =
  walk_path :: string
  walk_Name :: string
  walk_IsDir :: bool
  walk_err :: bool

record 'fs os =
  GOOS :: string
  PathListSeparator :: char
  Join :: "string list \<Rightarrow> string"
  FromSlash :: "string \<Rightarrow> string"
  Base :: "string \<Rightarrow> string"
  Abs :: "string \<Rightarrow> string"
  ToLower :: "string \<Rightarrow> string"
  Unmarshal :: "string \<Rightarrow> string + VersionJSON"
  RangeOrder :: "(string \<times> string) list \<Rightarrow> (string \<times> string) list"
  Stat :: "'fs \<Rightarrow> string \<Rightarrow> stat_result"
  ReadFile :: "'fs \<Rightarrow> string \<Rightarrow> string + string"
  ReadDir :: "'fs \<Rightarrow> string \<Rightarrow> string list \<times> string option"
  MkdirAll :: "'fs \<Rightarrow> string \<Rightarrow> string option \<times> 'fs"
  Create :: "'fs \<Rightarrow> string \<Rightarrow> 'fs option"
  Copy :: "'fs \<Rightarrow> string \<Rightarrow> string \<Rightarrow> bool \<times> 'fs"
  Walk :: "'fs \<Rightarrow> string \<Rightarrow> walk_call list"
  OpenReader :: "'fs \<Rightarrow> string \<Rightarrow> string + zip_file list"

text \<open>\<open>err.Error()\<close>: the message of an error.\<close>

fun Error :: "error \<Rightarrow> string" where
  "Error (ReadVersionJSON e) = ''failed to read version JSON: '' @ e"
| "Error (ParseVersionJSON e) = ''failed to parse version JSON: '' @ e"
| "Error (LoadParentVersion parent e) =
     ''failed to load parent version '' @ parent @ '': '' @ Error e"
| "Error (VersionJarNotFound jar) = ''version jar not found: '' @ jar"
| "Error (VersionAndParentJarNotFound jar parentJar) =
     ''version jar not found: '' @ jar @ '' and parent jar not found: '' @ parentJar"
| "Error (OSError e) = e"
| "Error (UnsupportedPlatform goos) = ''unsupported platform: '' @ goos"
| "Error (ReadNativesDirectory e) = ''failed to read natives directory: '' @ e"
| "Error NoNativesExtracted =
     ''no native libraries were extracted - check if native JARs exist in libraries''"

subsection \<open>Native libraries\<close>

text \<open>The test on a file name that \<open>extractJar\<close> and \<open>extractNativesFromLibraries\<close> share.\<close>

definition isNative :: "'fs os \<Rightarrow> string \<Rightarrow> bool" where
  "isNative os fileName =
     (let name = ToLower os fileName
      in HasSuffix name ''.dll'' \<or> HasSuffix name ''.so'' \<or>
         HasSuffix name ''.dylib'' \<or> HasSuffix name ''.jnilib'')"

text \<open>The loop of \<open>extractJar\<close> over the files of the archive.\<close>

fun extract_files ::
  "'fs os \<Rightarrow> string \<Rightarrow> zip_file list \<Rightarrow> 'fs \<Rightarrow> 'fs \<times> event list" where
  "extract_files os destDir [] fs = (fs, [])"
| "extract_files os destDir (f # files) fs =
     (if zip_IsDir f \<or> HasPrefix (zip_Name f) ''META-INF/'' then
        extract_files os destDir files fs
      else if \<not> isNative os (zip_Name f) then
        extract_files os destDir files fs
      else
        (let destPath = Join os [destDir, Base os (zip_Name f)]
         in if Stat os fs destPath = Found then extract_files os destDir files fs
            else
              (case zip_Open f of
                 None \<Rightarrow> extract_files os destDir files fs
               | Some rc \<Rightarrow>
                   (case Create os fs destPath of
                      None \<Rightarrow> extract_files os destDir files fs
                    | Some fs1 \<Rightarrow>
                        (let written = Copy os fs1 destPath (fst rc);
                             rest = extract_files os destDir files (snd written)
                         in (fst rest,
                             (if fst written \<and> snd rc
                              then [(''native_extracted'', PStr (Base os (zip_Name f)))]
                              else []) @ snd rest))))))"

definition extractJar ::
  "'fs os \<Rightarrow> string \<Rightarrow> string \<Rightarrow> 'fs \<Rightarrow> 'fs \<times> event list \<times> string option" where
  "extractJar os jarPath destDir fs =
     (case OpenReader os fs jarPath of
        Inl err \<Rightarrow> (fs, [], Some err)
      | Inr files \<Rightarrow>
          (let r = extract_files os destDir files fs
           in (fst r, snd r, None)))"

text \<open>
  The function that \<open>extractNativesFromLibraries\<close> gives to \<open>filepath.Walk\<close>, run over the
  calls of the walk. It returns \<open>nil\<close> always, so the walk is never cut short.
\<close>

fun walk_libraries ::
  "'fs os \<Rightarrow> string \<Rightarrow> string \<Rightarrow> walk_call list \<Rightarrow> 'fs \<Rightarrow> 'fs \<times> event list" where
  "walk_libraries os nativePattern nativesDir [] fs = (fs, [])"
| "walk_libraries os nativePattern nativesDir (w # ws) fs =
     (if walk_err w \<or> walk_IsDir w \<or> \<not> HasSuffix (walk_Name w) ''.jar'' then
        walk_libraries os nativePattern nativesDir ws fs
      else
        (let lowerName = ToLower os (walk_Name w)
         in if Contains lowerName nativePattern \<or> Contains lowerName ''natives'' then
              (let extracted = extractJar os (walk_path w) nativesDir fs;
                   rest = walk_libraries os nativePattern nativesDir ws (fst extracted)
               in (fst rest,
                   (''native_jar_processing'', PStr (walk_Name w)) #
                   fst (snd extracted) @ snd rest))
            else walk_libraries os nativePattern nativesDir ws fs))"

definition nativePattern :: "string \<Rightarrow> string option" where
  "nativePattern goos =
     (if goos = ''windows'' then Some ''natives-windows''
      else if goos = ''darwin'' then Some ''natives-osx''
      else if goos = ''linux'' then Some ''natives-linux''
      else None)"

definition extractNativesFromLibraries ::
  "'fs os \<Rightarrow> string \<Rightarrow> string \<Rightarrow> 'fs \<Rightarrow> 'fs \<times> event list \<times> error option" where
  "extractNativesFromLibraries os libDir nativesDir fs =
     (case MkdirAll os fs nativesDir of
        (Some err, fs1) \<Rightarrow> (fs1, [], Some (OSError err))
      | (None, fs1) \<Rightarrow>
          (let listed = ReadDir os fs1 nativesDir
           in if snd listed = None \<and> length (fst listed) > 0 \<and>
                 list_ex (isNative os) (fst listed) then
                (fs1, [(''natives_already_extracted'', PStr nativesDir)], None)
              else
                (case nativePattern (GOOS os) of
                   None \<Rightarrow>
                     (fs1, [(''extracting_natives_start'', PStr libDir)],
                      Some (UnsupportedPlatform (GOOS os)))
                 | Some pattern \<Rightarrow>
                     (let walked = walk_libraries os pattern nativesDir (Walk os fs1 libDir) fs1;
                          fs2 = fst walked;
                          evs = (''extracting_natives_start'', PStr libDir) # snd walked
                      in (case ReadDir os fs2 nativesDir of
                            (entries, Some err) \<Rightarrow>
                              (fs2, evs, Some (ReadNativesDirectory err))
                          | (entries, None) \<Rightarrow>
                              (let nativeCount = length (filter (isNative os) entries)
                               in if nativeCount = 0 then
                                    (fs2,
                                     evs @ [(''error'', PStr
                                       ''No native libraries were extracted - check if native JARs exist in libraries'')],
                                     Some NoNativesExtracted)
                                  else
                                    (fs2,
                                     evs @ [(''natives_extracted'', PInt (int nativeCount))],
                                     None)))))))"

subsection \<open>Loading a version and its parents\<close>

text \<open>The merge that \<open>loadVersionJSON\<close> makes of a version and its loaded parent.\<close>

definition merge_parent :: "VersionJSON \<Rightarrow> VersionJSON \<Rightarrow> VersionJSON" where
  "merge_parent versionJSON parentJSON =
     versionJSON
       \<lparr> MainClass :=
           (if MainClass versionJSON = '''' then MainClass parentJSON
            else MainClass versionJSON),
         MinecraftArguments :=
           (if MinecraftArguments versionJSON = '''' then MinecraftArguments parentJSON
            else MinecraftArguments versionJSON),
         AssetIndex :=
           (if AssetIndex_ID (AssetIndex versionJSON) = '''' then AssetIndex parentJSON
            else AssetIndex versionJSON),
         Assets :=
           (if Assets versionJSON = '''' then Assets parentJSON else Assets versionJSON),
         Libraries := Libraries parentJSON @ Libraries versionJSON \<rparr>"

text \<open>
  \<open>loadVersionJSON\<close> calls itself on the parent, with no guard against a cycle: on a
  cycle of parents the Go function never returns, and the model is \<open>None\<close>.
\<close>

partial_function (option) loadVersionJSON ::
  "'fs os \<Rightarrow> 'fs \<Rightarrow> string \<Rightarrow> string \<Rightarrow> (event list \<times> (error + VersionJSON)) option" where
  "loadVersionJSON os fs gameDir version =
     (case ReadFile os fs (Join os [gameDir, ''versions'', version, version @ ''.json'']) of
        Inl err \<Rightarrow> Some ([], Inl (ReadVersionJSON err))
      | Inr data \<Rightarrow>
          (case Unmarshal os data of
             Inl err \<Rightarrow> Some ([], Inl (ParseVersionJSON err))
           | Inr versionJSON \<Rightarrow>
               (if InheritsFrom versionJSON \<noteq> '''' then
                  Option.bind (loadVersionJSON os fs gameDir (InheritsFrom versionJSON))
                    (\<lambda>parent.
                       (case snd parent of
                          Inl err \<Rightarrow>
                            Some ((''version_inherits_from'', PStr (InheritsFrom versionJSON)) #
                                  fst parent,
                                  Inl (LoadParentVersion (InheritsFrom versionJSON) err))
                        | Inr parentJSON \<Rightarrow>
                            Some ((''version_inherits_from'', PStr (InheritsFrom versionJSON)) #
                                  fst parent @
                                  [(''version_merged'',
                                    PMap [(''child'', version),
                                          (''parent'', InheritsFrom versionJSON)])],
                                  Inr (merge_parent versionJSON parentJSON))))
                else Some ([], Inr versionJSON))))"

declare loadVersionJSON.simps [code]

text \<open>
  The words of the inheritance claim. \<open>read_document\<close> is the document of a version when
  it can be read and parsed. \<open>inheritance_chain \<dots> version chain\<close>: \<open>chain\<close> lists the
  documents from \<open>version\<close> to the root, each the parent that the one before declares,
  the last without a parent. \<open>first_nonempty\<close> is the first value that is not empty.
\<close>

definition read_document :: "'fs os \<Rightarrow> 'fs \<Rightarrow> string \<Rightarrow> string \<Rightarrow> VersionJSON option" where
  "read_document os fs gameDir version =
     (case ReadFile os fs (Join os [gameDir, ''versions'', version, version @ ''.json'']) of
        Inl err \<Rightarrow> None
      | Inr data \<Rightarrow> (case Unmarshal os data of Inl err \<Rightarrow> None | Inr d \<Rightarrow> Some d))"

fun inheritance_chain ::
  "'fs os \<Rightarrow> 'fs \<Rightarrow> string \<Rightarrow> string \<Rightarrow> VersionJSON list \<Rightarrow> bool" where
  "inheritance_chain os fs gameDir version [] = False"
| "inheritance_chain os fs gameDir version [d] =
     (read_document os fs gameDir version = Some d \<and> InheritsFrom d = '''')"
| "inheritance_chain os fs gameDir version (d # p # chain) =
     (read_document os fs gameDir version = Some d \<and> InheritsFrom d \<noteq> '''' \<and>
      inheritance_chain os fs gameDir (InheritsFrom d) (p # chain))"

fun first_nonempty :: "string list \<Rightarrow> string" where
  "first_nonempty [] = ''''"
| "first_nonempty (s # ss) = (if s \<noteq> '''' then s else first_nonempty ss)"

text \<open>
  What resolving a chain must give: the libraries of the root first and of the version
  itself last, and for each scalar field the first value that is not empty, from the
  version towards the root.
\<close>

definition resolves_to :: "VersionJSON list \<Rightarrow> VersionJSON \<Rightarrow> bool" where
  "resolves_to chain merged =
     (Libraries merged = concat (rev (map Libraries chain)) \<and>
      MainClass merged = first_nonempty (map MainClass chain) \<and>
      MinecraftArguments merged = first_nonempty (map MinecraftArguments chain) \<and>
      Assets merged = first_nonempty (map Assets chain) \<and>
      AssetIndex_ID (AssetIndex merged) =
        first_nonempty (map (\<lambda>d. AssetIndex_ID (AssetIndex d)) chain))"

subsection \<open>The legacy argument template\<close>

text \<open>
  \<open>strings.ReplaceAll(s, old, new)\<close>: the occurrences of \<open>old\<close> that do not overlap, from
  the left. \<open>parseMinecraftArguments\<close> calls it with \<open>old = "${" + key + "}"\<close>, never empty;
  for an empty \<open>old\<close> Go puts \<open>new\<close> before every character and at the end (the model
  takes every byte for a character there).
\<close>

function ReplaceAll :: "string \<Rightarrow> string \<Rightarrow> string \<Rightarrow> string" where
  "ReplaceAll s old new =
     (if old = [] then new @ concat (map (\<lambda>c. c # new) s)
      else if s = [] then []
      else if prefix old s then new @ ReplaceAll (drop (length old) s) old new
      else hd s # ReplaceAll (tl s) old new)"
  by pat_completeness auto
termination
  by (relation "measure (\<lambda>(s, old, new). length s)") auto

declare ReplaceAll.simps [simp del]

text \<open>
  \<open>strings.Fields\<close> splits around the runs of white space, as \<open>unicode.IsSpace\<close> defines
  it. \<open>space_width s\<close> is the number of bytes of the white space character that \<open>s\<close> starts
  with in UTF-8, and 0 when it starts with none.
\<close>

definition space_width :: "string \<Rightarrow> nat" where
  "space_width s =
     (if list_ex (\<lambda>sp. prefix sp s)
           [[CHR 0x09], [CHR 0x0A], [CHR 0x0B], [CHR 0x0C], [CHR 0x0D], [CHR 0x20]] then 1
      else if list_ex (\<lambda>sp. prefix sp s) [[CHR 0xC2, CHR 0x85], [CHR 0xC2, CHR 0xA0]] then 2
      else if list_ex (\<lambda>sp. prefix sp s)
           ([[CHR 0xE1, CHR 0x9A, CHR 0x80]] @
            map (\<lambda>b. [CHR 0xE2, CHR 0x80, b])
              [CHR 0x80, CHR 0x81, CHR 0x82, CHR 0x83, CHR 0x84, CHR 0x85, CHR 0x86,
               CHR 0x87, CHR 0x88, CHR 0x89, CHR 0x8A, CHR 0xA8, CHR 0xA9, CHR 0xAF] @
            [[CHR 0xE2, CHR 0x81, CHR 0x9F], [CHR 0xE3, CHR 0x80, CHR 0x80]]) then 3
      else 0)"

text \<open>
  \<open>fields_scan skip field s\<close>: \<open>skip\<close> bytes of \<open>s\<close> still belong to a white space character,
  \<open>field\<close> is the field read so far.
\<close>

fun fields_scan :: "nat \<Rightarrow> string \<Rightarrow> string \<Rightarrow> string list" where
  "fields_scan skip field [] = (if field = [] then [] else [field])"
| "fields_scan (Suc skip) field (c # s) = fields_scan skip field s"
| "fields_scan 0 field (c # s) =
     (case space_width (c # s) of
        0 \<Rightarrow> fields_scan 0 (field @ [c]) s
      | Suc w \<Rightarrow> (if field = [] then [] else [field]) @ fields_scan w [] s)"

definition Fields :: "string \<Rightarrow> string list" where
  "Fields s = fields_scan 0 [] s"

text \<open>
  \<open>parseMinecraftArguments\<close>. The map \<open>replacements\<close> is given as the list of its entries
  in the order in which the \<open>range\<close> loop visits them.
\<close>

definition parseMinecraftArguments :: "string \<Rightarrow> (string \<times> string) list \<Rightarrow> string list" where
  "parseMinecraftArguments template replacements =
     Fields (foldl (\<lambda>template (key, value). ReplaceAll template (''${'' @ key @ ''}'') value)
               template replacements)"

text \<open>
  A template in the words of the specification: text and placeholders \<open>${key}\<close>;
  substitution puts the value of the key, if the map has one, in the place of each
  placeholder.
\<close>

datatype piece = Lit string | Var string

fun render :: "piece list \<Rightarrow> string" where
  "render [] = []"
| "render (Lit s # ps) = s @ render ps"
| "render (Var key # ps) = ''${'' @ key @ ''}'' @ render ps"

fun substitute :: "(string \<times> string) list \<Rightarrow> piece list \<Rightarrow> string" where
  "substitute m [] = []"
| "substitute m (Lit s # ps) = s @ substitute m ps"
| "substitute m (Var key # ps) =
     (case map_of m key of
        Some value \<Rightarrow> value @ substitute m ps
      | None \<Rightarrow> ''${'' @ key @ ''}'' @ substitute m ps)"

text \<open>
  Text that opens no placeholder: \<open>no_open s\<close> when \<open>${\<close> is nowhere in \<open>s\<close>, and
  \<open>plain_text s\<close> when moreover \<open>s\<close> does not end in \<open>$\<close>, so that what comes after it
  opens none with it. In a plain template every text but the last is plain, the last
  opens no placeholder, and the keys of the placeholders have no \<open>$\<close> and no \<open>}\<close>.
\<close>

fun no_open :: "string \<Rightarrow> bool" where
  "no_open (c # d # s) = (\<not> (c = CHR ''$'' \<and> d = CHR ''{'') \<and> no_open (d # s))"
| "no_open s = True"

definition plain_text :: "string \<Rightarrow> bool" where
  "plain_text s = (no_open s \<and> (s = [] \<or> last s \<noteq> CHR ''$''))"

fun plain_pieces :: "piece list \<Rightarrow> bool" where
  "plain_pieces [] = True"
| "plain_pieces [Lit s] = no_open s"
| "plain_pieces (Lit s # p # ps) = (plain_text s \<and> plain_pieces (p # ps))"
| "plain_pieces (Var key # ps) =
     (CHR ''$'' \<notin> set key \<and> CHR ''}'' \<notin> set key \<and> plain_pieces ps)"

definition plain_entry :: "string \<times> string \<Rightarrow> bool" where
  "plain_entry kv = (CHR ''}'' \<notin> set (fst kv) \<and> plain_text (snd kv))"

text \<open>One round of the loop in terms of pieces: the placeholders of \<open>key\<close> become text.\<close>

fun fill :: "string \<Rightarrow> string \<Rightarrow> piece list \<Rightarrow> piece list" where
  "fill key value [] = []"
| "fill key value (Lit s # ps) = Lit s # fill key value ps"
| "fill key value (Var k # ps) =
     (if k = key then Lit value # fill key value ps else Var k # fill key value ps)"

subsection \<open>The classpath\<close>

text \<open>The four paths that \<open>buildClasspath\<close> tries for a library without an artifact path.\<close>

definition possiblePaths ::
  "'fs os \<Rightarrow> string \<Rightarrow> string \<Rightarrow> string \<Rightarrow> string \<Rightarrow> string \<Rightarrow> string \<Rightarrow> string list" where
  "possiblePaths os libDir versionDir libName groupId artifact version =
     [Join os [versionDir, artifact @ ''-'' @ version @ ''.jar''],
      Join os [libDir, FromSlash os groupId, artifact, version,
               artifact @ ''-'' @ version @ ''.jar''],
      Join os [libDir, FromSlash os groupId, artifact, artifact @ ''-'' @ version @ ''.jar''],
      Join os [versionDir, libName @ ''.jar'']]"

text \<open>The loop over \<open>possiblePaths\<close>: the first path that \<open>os.Stat\<close> finds, if any.\<close>

fun first_found :: "'fs os \<Rightarrow> 'fs \<Rightarrow> string list \<Rightarrow> string option" where
  "first_found os fs [] = None"
| "first_found os fs (path # paths) =
     (if Stat os fs path = Found then Some path else first_found os fs paths)"

text \<open>
  The body of the loop of \<open>buildClasspath\<close> for a library that passed its rules: the paths
  it appends to \<open>classpathParts\<close> and the events it emits.
\<close>

definition add_library ::
  "'fs os \<Rightarrow> 'fs \<Rightarrow> string \<Rightarrow> string \<Rightarrow> Library \<Rightarrow> string list \<times> event list" where
  "add_library os fs libDir versionDir lib =
     (if Artifact_Path (Artifact (Downloads lib)) \<noteq> '''' then
        (let libPath = Join os [libDir, FromSlash os (Artifact_Path (Artifact (Downloads lib)))]
         in if Stat os fs libPath = Found then ([libPath], [])
            else ([], [(''library_missing'',
                        PMap [(''name'', Name lib), (''path'', libPath)])]))
      else if Name lib \<noteq> '''' then
        (case Split (Name lib) CHR '':'' of
           groupId # artifact # version # rest \<Rightarrow>
             (case first_found os fs
                     (possiblePaths os libDir versionDir (Name lib) groupId artifact version) of
                Some path \<Rightarrow>
                  ([path], [(''library_found_alternative'',
                             PMap [(''name'', Name lib), (''path'', path)])])
              | None \<Rightarrow> ([], [(''library_not_found'', PStr (Name lib))]))
         | _ \<Rightarrow> ([], []))
      else ([], []))"

fun add_libraries ::
  "'fs os \<Rightarrow> 'fs \<Rightarrow> string \<Rightarrow> string \<Rightarrow> Library list \<Rightarrow> string list \<times> event list" where
  "add_libraries os fs libDir versionDir [] = ([], [])"
| "add_libraries os fs libDir versionDir (lib # libs) =
     (let rest = add_libraries os fs libDir versionDir libs
      in if \<not> shouldIncludeLibrary (GOOS os) (Rules lib) then rest
         else (let added = add_library os fs libDir versionDir lib
               in (fst added @ fst rest, snd added @ snd rest)))"

text \<open>The value of \<open>classpathParts\<close> at the end of \<open>buildClasspath\<close>, with the events.\<close>

definition classpathParts ::
  "'fs os \<Rightarrow> 'fs \<Rightarrow> string \<Rightarrow> string \<Rightarrow> VersionJSON \<Rightarrow> string list \<times> event list" where
  "classpathParts os fs gameDir version versionJSON =
     (let libDir = Join os [gameDir, ''libraries''];
          versionDir = Join os [gameDir, ''versions'', version];
          libs = add_libraries os fs libDir versionDir (Libraries versionJSON);
          versionJar = Join os [versionDir, version @ ''.jar''];
          parts = (if Stat os fs versionJar = Found then fst libs @ [versionJar]
                   else fst libs)
      in (parts, snd libs @ [(''classpath_built'', PInt (int (length parts)))]))"

definition buildClasspath ::
  "'fs os \<Rightarrow> 'fs \<Rightarrow> string \<Rightarrow> string \<Rightarrow> VersionJSON \<Rightarrow> string \<times> event list" where
  "buildClasspath os fs gameDir version versionJSON =
     (let built = classpathParts os fs gameDir version versionJSON
      in (JoinStrings (fst built) [PathListSeparator os], snd built))"

text \<open>
  The candidates in the words of the specification. The group as a path has the dots of
  the group as separators, which is the layout of Maven that the source names at its
  second path; the code passes the group through \<open>filepath.FromSlash\<close> as it is written,
  and the two agree on a group without dots (\<open>undotted_group\<close>). The candidates are the
  artifact path under the dependency root when it is set, then the four paths derived
  from the coordinate.
\<close>

definition group_as_path :: "'fs os \<Rightarrow> string \<Rightarrow> string" where
  "group_as_path os groupId =
     FromSlash os (map (\<lambda>c. if c = CHR ''.'' then CHR ''/'' else c) groupId)"


definition spec_candidates ::
  "'fs os \<Rightarrow> string \<Rightarrow> string \<Rightarrow> Library \<Rightarrow> string list" where
  "spec_candidates os libDir versionDir lib =
     (if Artifact_Path (Artifact (Downloads lib)) \<noteq> ''''
      then [Join os [libDir, FromSlash os (Artifact_Path (Artifact (Downloads lib)))]]
      else []) @
     (case Split (Name lib) CHR '':'' of
        groupId # artifact # version # rest \<Rightarrow>
          [Join os [versionDir, artifact @ ''-'' @ version @ ''.jar''],
           Join os [libDir, group_as_path os groupId, artifact, version,
                    artifact @ ''-'' @ version @ ''.jar''],
           Join os [libDir, group_as_path os groupId, artifact,
                    artifact @ ''-'' @ version @ ''.jar''],
           Join os [versionDir, Name lib @ ''.jar'']]
      | _ \<Rightarrow> [])"

text \<open>A library that the code can look for, and the event that reports it as not found.\<close>

definition has_location :: "Library \<Rightarrow> bool" where
  "has_location lib =
     (Artifact_Path (Artifact (Downloads lib)) \<noteq> '''' \<or>
      (Name lib \<noteq> '''' \<and> 3 \<le> length (Split (Name lib) CHR '':'')))"

definition reports_missing :: "Library \<Rightarrow> event \<Rightarrow> bool" where
  "reports_missing lib ev =
     ((fst ev = ''library_missing'' \<and>
       (case snd ev of PMap m \<Rightarrow> map_of m ''name'' = Some (Name lib) | _ \<Rightarrow> False)) \<or>
      ev = (''library_not_found'', PStr (Name lib)))"

subsection \<open>The command\<close>

text \<open>
  The check of the version jar in \<open>PrepareCMD\<close>, with the value that the variable
  \<open>versionJar\<close> has after it. \<open>os.IsNotExist\<close> is the only error that the check acts on.
\<close>

definition check_version_jar ::
  "'fs os \<Rightarrow> 'fs \<Rightarrow> string \<Rightarrow> string \<Rightarrow> VersionJSON \<Rightarrow> event list \<times> (error + string)" where
  "check_version_jar os fs gameDir version versionJSON =
     (let versionDir = Join os [gameDir, ''versions'', version];
          versionJar = Join os [versionDir, version @ ''.jar'']
      in if Stat os fs versionJar = NotExist then
           (if InheritsFrom versionJSON \<noteq> '''' then
              (let parentJar = Join os [gameDir, ''versions'', InheritsFrom versionJSON,
                                        InheritsFrom versionJSON @ ''.jar'']
               in if Stat os fs parentJar = Found then
                    ([(''using_parent_jar'', PStr (InheritsFrom versionJSON))], Inr parentJar)
                  else
                    ([(''error'', PStr (Error (VersionAndParentJarNotFound versionJar parentJar)))],
                     Inl (VersionAndParentJarNotFound versionJar parentJar)))
            else
              ([(''error'', PStr (Error (VersionJarNotFound versionJar)))],
               Inl (VersionJarNotFound versionJar)))
         else ([], Inr versionJar))"

text \<open>The map \<open>replacements\<close> of \<open>PrepareCMD\<close>, in the order of the source.\<close>

definition replacements ::
  "'fs os \<Rightarrow> string \<Rightarrow> string \<Rightarrow> string \<Rightarrow> string \<Rightarrow> string \<Rightarrow> string \<Rightarrow>
   (string \<times> string) list" where
  "replacements os username version gameDir assetIndex uuid accessToken =
     [(''auth_player_name'', username),
      (''version_name'', version),
      (''game_directory'', gameDir),
      (''assets_root'', Join os [gameDir, ''assets'']),
      (''assets_index_name'', assetIndex),
      (''auth_uuid'', uuid),
      (''auth_access_token'', accessToken),
      (''user_properties'', ''{}''),
      (''user_type'', ''legacy'')]"

text \<open>
  The steps of \<open>PrepareCMD\<close> after the natives: the classpath and the arguments. The
  variable \<open>versionJar\<close> of \<open>PrepareCMD\<close> is not among the parameters: nothing reads it
  after the check.
\<close>

definition build_arguments ::
  "'fs os \<Rightarrow> 'fs \<Rightarrow> string \<Rightarrow> string \<Rightarrow> string \<Rightarrow> string \<Rightarrow> string \<Rightarrow> string \<Rightarrow>
   string \<Rightarrow> string \<Rightarrow> VersionJSON \<Rightarrow> string list \<Rightarrow> event list \<times> string list" where
  "build_arguments os fs username accessToken uuid gameDir version javaPath maxRam minRam
     versionJSON extraArgs =
     (let versionDir = Join os [gameDir, ''versions'', version];
          nativesDir = Join os [versionDir, ''natives''];
          libDir = Join os [gameDir, ''libraries''];
          classpath = buildClasspath os fs gameDir version versionJSON;
          absNativesDir = Abs os nativesDir;
          assetIndex = (if Assets versionJSON \<noteq> '''' then Assets versionJSON
                        else AssetIndex_ID (AssetIndex versionJSON));
          args = [''-Xmx'' @ maxRam, ''-Xms'' @ minRam,
                  ''-Djava.library.path='' @ absNativesDir, ''-cp'', fst classpath];
          mainClass = (if MainClass versionJSON = '''' then ''net.minecraft.client.main.Main''
                       else MainClass versionJSON);
          gameArgs =
            (if MinecraftArguments versionJSON \<noteq> '''' then
               parseMinecraftArguments (MinecraftArguments versionJSON)
                 (RangeOrder os
                    (replacements os username version gameDir assetIndex uuid accessToken))
             else
               [''--username'', username, ''--version'', version, ''--gameDir'', gameDir,
                ''--assetsDir'', Join os [gameDir, ''assets''], ''--assetIndex'', assetIndex,
                ''--uuid'', uuid, ''--accessToken'', accessToken, ''--userType'', ''legacy''])
      in ((''building_classpath'', PStr libDir) # snd classpath @
          [(''launch_preparation_complete'',
            PMap [(''username'', username), (''version'', version),
                  (''javaPath'', javaPath), (''mainClass'', mainClass)])],
          args @ [mainClass] @ gameArgs @ extraArgs))"

text \<open>
  \<open>PrepareCMD\<close>: the file system after the call, the events, and the error or the Java
  path with the arguments. It is \<open>None\<close> when \<open>loadVersionJSON\<close> does not return.
\<close>

definition PrepareCMD ::
  "'fs os \<Rightarrow> 'fs \<Rightarrow> string \<Rightarrow> string \<Rightarrow> string \<Rightarrow> string \<Rightarrow> string \<Rightarrow> string \<Rightarrow>
   string \<Rightarrow> string \<Rightarrow> string list \<Rightarrow>
   ('fs \<times> event list \<times> (error + string \<times> string list)) option" where
  "PrepareCMD os fs username0 accessToken0 uuid0 gameDir version javaPath0 maxRam0 minRam0
     extraArgs =
     (let username = (if username0 = '''' then ''Player'' else username0);
          javaPath = (if javaPath0 = '''' then ''java'' else javaPath0);
          maxRam = (if maxRam0 = '''' then ''2G'' else maxRam0);
          minRam = (if minRam0 = '''' then ''512M'' else minRam0);
          accessToken = (if accessToken0 = '''' then ''0'' else accessToken0);
          uuid = (if uuid0 = '''' then ''00000000-0000-0000-0000-000000000000'' else uuid0);
          start = (''launch_preparation_start'', PStr version)
      in Option.bind (loadVersionJSON os fs gameDir version)
           (\<lambda>loaded.
              (case snd loaded of
                 Inl err \<Rightarrow>
                   Some (fs, start # fst loaded @ [(''error'', PStr (Error err))], Inl err)
               | Inr versionJSON \<Rightarrow>
                   (let evs1 = start # fst loaded @
                               [(''version_json_loaded'', PStr (ID versionJSON))];
                        checked = check_version_jar os fs gameDir version versionJSON
                    in (case snd checked of
                          Inl err \<Rightarrow> Some (fs, evs1 @ fst checked, Inl err)
                        | Inr versionJar \<Rightarrow>
                            (let versionDir = Join os [gameDir, ''versions'', version];
                                 nativesDir = Join os [versionDir, ''natives''];
                                 libDir = Join os [gameDir, ''libraries''];
                                 extracted = extractNativesFromLibraries os libDir nativesDir fs;
                                 fs1 = fst extracted;
                                 evs2 = evs1 @ fst checked @ fst (snd extracted)
                             in (case snd (snd extracted) of
                                   Some err \<Rightarrow>
                                     Some (fs1,
                                           evs2 @ [(''error'', PStr
                                             (''Failed to extract natives: '' @ Error err))],
                                           Inl err)
                                 | None \<Rightarrow>
                                     (let built = build_arguments os fs1 username accessToken
                                            uuid gameDir version javaPath maxRam minRam
                                            versionJSON extraArgs
                                      in Some (fs1, evs2 @ fst built,
                                               Inr (javaPath, snd built))))))))))"

text \<open>
  The events of the steps of \<open>PrepareCMD\<close> that build the arguments (\<open>buildClasspath\<close> and
  what follows it).
\<close>

definition argument_events :: "string list" where
  "argument_events =
     [''building_classpath'', ''library_missing'', ''library_found_alternative'',
      ''library_not_found'', ''classpath_built'', ''launch_preparation_complete'']"

subsection \<open>A file system in memory\<close>

text \<open>
  An operating system to run the functions on: the file system is a list of paths with
  what is there, paths are joined with \<open>/\<close>, a document is parsed by looking it up in a
  table. It serves the concrete examples; every general theorem holds for any operations.
\<close>

datatype node = Directory | Regular string | Archive "zip_file list"

type_synonym memfs = "(string \<times> node) list"

fun mem_put :: "memfs \<Rightarrow> string \<Rightarrow> node \<Rightarrow> memfs" where
  "mem_put [] path n = [(path, n)]"
| "mem_put ((q, m) # fs) path n =
     (if q = path then (q, n) # fs else (q, m) # mem_put fs path n)"

definition mem_Base :: "string \<Rightarrow> string" where
  "mem_Base path = (if path = [] then ''.'' else last (Split path CHR ''/''))"

definition mem_ToLower :: "string \<Rightarrow> string" where
  "mem_ToLower s =
     map (\<lambda>c. if 65 \<le> (of_char c :: nat) \<and> (of_char c :: nat) \<le> 90
              then char_of (of_char c + (32::nat)) else c) s"

definition mem_ReadDir :: "memfs \<Rightarrow> string \<Rightarrow> string list \<times> string option" where
  "mem_ReadDir fs dir =
     (if map_of fs dir = Some Directory then
        (filter (\<lambda>name. CHR ''/'' \<notin> set name)
           (map (\<lambda>entry. drop (length dir + 1) (fst entry))
              (filter (\<lambda>entry. prefix (dir @ ''/'') (fst entry)) fs)),
         None)
      else ([], Some ''not a directory''))"

definition mem_Walk :: "memfs \<Rightarrow> string \<Rightarrow> walk_call list" where
  "mem_Walk fs root =
     map (\<lambda>entry. \<lparr>walk_path = fst entry, walk_Name = mem_Base (fst entry),
                    walk_IsDir = (snd entry = Directory), walk_err = False\<rparr>)
       (filter (\<lambda>entry. fst entry = root \<or> prefix (root @ ''/'') (fst entry)) fs)"

definition mem_os :: "string \<Rightarrow> (string \<times> VersionJSON) list \<Rightarrow> memfs os" where
  "mem_os goos documents =
     \<lparr> GOOS = goos,
       PathListSeparator = CHR '':'',
       Join = (\<lambda>elems. JoinStrings (filter (\<lambda>e. e \<noteq> []) elems) ''/''),
       FromSlash = (\<lambda>path. path),
       Base = mem_Base,
       Abs = (\<lambda>path. if prefix ''/'' path then path else ''/home/player/'' @ path),
       ToLower = mem_ToLower,
       Unmarshal = (\<lambda>data. case map_of documents data of
                              None \<Rightarrow> Inl ''invalid character''
                            | Some versionJSON \<Rightarrow> Inr versionJSON),
       RangeOrder = rev,
       Stat = (\<lambda>fs path. if map_of fs path = None then NotExist else Found),
       ReadFile = (\<lambda>fs path. case map_of fs path of
                                Some (Regular data) \<Rightarrow> Inr data
                              | _ \<Rightarrow> Inl ''no such file''),
       ReadDir = mem_ReadDir,
       MkdirAll = (\<lambda>fs path. case map_of fs path of
                                None \<Rightarrow> (None, fs @ [(path, Directory)])
                              | Some Directory \<Rightarrow> (None, fs)
                              | Some _ \<Rightarrow> (Some ''not a directory'', fs)),
       Create = (\<lambda>fs path. Some (mem_put fs path (Regular []))),
       Copy = (\<lambda>fs path data. (True, mem_put fs path (Regular data))),
       Walk = mem_Walk,
       OpenReader = (\<lambda>fs path. case map_of fs path of
                                  Some (Archive files) \<Rightarrow> Inr files
                                | _ \<Rightarrow> Inl ''not a valid zip file'') \<rparr>"

text \<open>A library and a version document with every other field empty.\<close>

definition library :: "string \<Rightarrow> string \<Rightarrow> Rule list \<Rightarrow> Library" where
  "library libName path rules =
     \<lparr> Name = libName,
       Downloads = \<lparr> Artifact = \<lparr> Artifact_Path = path, Artifact_URL = '''',
                                   Artifact_SHA1 = '''', Artifact_Size = 0 \<rparr>,
                     Classifiers = [] \<rparr>,
       Rules = rules,
       Natives = [] \<rparr>"

definition document ::
  "string \<Rightarrow> string \<Rightarrow> string \<Rightarrow> string \<Rightarrow> Library list \<Rightarrow> VersionJSON" where
  "document ident parent mainClass arguments libs =
     \<lparr> ID = ident, Type = '''', MainClass = mainClass, MinecraftArguments = arguments,
       InheritsFrom = parent, MinimumLauncherVersion = 0, ReleaseTime = '''', Time = '''',
       AssetIndex = \<lparr> AssetIndex_ID = '''', AssetIndex_SHA1 = '''', AssetIndex_Size = 0,
                      AssetIndex_TotalSize = 0, AssetIndex_URL = '''' \<rparr>,
       Assets = '''',
       Libraries = libs \<rparr>"

text \<open>
  The scenario of the specification: version \<open>X\<close> with library \<open>L1\<close> inherits from \<open>Y\<close>
  with main class \<open>M\<close> and library \<open>L2\<close>; both libraries are on disk and the natives are
  extracted (\<open>scenario_fs\<close>) or not yet (\<open>installed\<close>). Of the two jars, \<open>jars\<close> says
  which are on disk.
\<close>

definition L1 :: Library where
  "L1 = library ''org.example:l1:1.0'' ''org/example/l1/1.0/l1-1.0.jar'' []"

definition L2 :: Library where
  "L2 = library ''org.example:l2:2.0'' ''org/example/l2/2.0/l2-2.0.jar'' []"

definition scenario_documents :: "(string \<times> VersionJSON) list" where
  "scenario_documents =
     [(''{X}'', document ''X'' ''Y'' '''' '''' [L1]),
      (''{Y}'', document ''Y'' '''' ''M'' '''' [L2])]"

definition installed :: "string list \<Rightarrow> memfs" where
  "installed jars =
     [(''mc/versions/X/X.json'', Regular ''{X}''),
      (''mc/versions/Y/Y.json'', Regular ''{Y}''),
      (''mc/libraries/org/example/l1/1.0/l1-1.0.jar'', Archive []),
      (''mc/libraries/org/example/l2/2.0/l2-2.0.jar'', Archive [])] @
     map (\<lambda>jar. (jar, Archive [])) jars"

definition scenario_fs :: "string list \<Rightarrow> memfs" where
  "scenario_fs jars =
     installed jars @
     [(''mc/versions/X/natives'', Directory),
      (''mc/versions/X/natives/liblwjgl.so'', Regular ''ELF'')]"

text \<open>A version \<open>Z\<close> without a parent and without a main class, installed with its natives.\<close>

definition plain_documents :: "(string \<times> VersionJSON) list" where
  "plain_documents = [(''{Z}'', document ''Z'' '''' '''' '''' [])]"

definition plain_fs :: memfs where
  "plain_fs =
     [(''mc/versions/Z/Z.json'', Regular ''{Z}''),
      (''mc/versions/Z/Z.jar'', Archive []),
      (''mc/versions/Z/natives'', Directory),
      (''mc/versions/Z/natives/lwjgl.dll'', Regular ''MZ'')]"

text \<open>A chain of three versions: \<open>C\<close> inherits from \<open>B\<close>, \<open>B\<close> from \<open>A\<close>.\<close>

definition chain_documents :: "(string \<times> VersionJSON) list" where
  "chain_documents =
     [(''{C}'', document ''C'' ''B'' '''' '''' [L1]),
      (''{B}'', document ''B'' ''A'' ''b.Main'' '''' []),
      (''{A}'', document ''A'' '''' ''a.Main'' ''--demo'' [L2])]"

definition chain_fs :: memfs where
  "chain_fs =
     [(''mc/versions/C/C.json'', Regular ''{C}''),
      (''mc/versions/B/B.json'', Regular ''{B}''),
      (''mc/versions/A/A.json'', Regular ''{A}'')]"

section \<open>Properties\<close>

subsection \<open>Platform rules\<close>

lemma rules_loop_deny:
  "list_ex (deny_fires p) rules \<Longrightarrow> rules_loop p rules allowed = False"
  by (induction rules arbitrary: allowed)
     (auto simp: deny_fires_def rule_matches_def)

lemma rules_loop_no_deny:
  "\<not> list_ex (deny_fires p) rules \<Longrightarrow>
   rules_loop p rules allowed = (allowed \<or> list_ex (allow_fires p) rules)"
  by (induction rules arbitrary: allowed)
     (auto simp: deny_fires_def allow_fires_def rule_matches_def)

text \<open>
  C2. An empty rule list includes the library. Otherwise the library is excluded as soon
  as one deny rule (action \<open>disallow\<close>) is unscoped or scoped to the current platform,
  wherever it stands; and when no deny rule fires, it is included exactly when some allow
  rule is unscoped or scoped to the current platform.
\<close>

theorem shouldIncludeLibrary_policy:
  "shouldIncludeLibrary goos rules =
     (rules = [] \<or>
      (\<not> list_ex (deny_fires (getOSName goos)) rules \<and>
       list_ex (allow_fires (getOSName goos)) rules))"
proof (cases "list_ex (deny_fires (getOSName goos)) rules")
  case True
  then have "rules \<noteq> []" by auto
  with True show ?thesis
    by (simp add: shouldIncludeLibrary_def rules_loop_deny)
next
  case False
  then show ?thesis
    by (auto simp: shouldIncludeLibrary_def rules_loop_no_deny)
qed

theorem shouldIncludeLibrary_policy_witness:
  "shouldIncludeLibrary ''darwin''
     [\<lparr>Action = ''allow'', OS_Name = ''''\<rparr>, \<lparr>Action = ''disallow'', OS_Name = ''osx''\<rparr>] = False
   \<and> shouldIncludeLibrary ''darwin'' [\<lparr>Action = ''allow'', OS_Name = ''osx''\<rparr>] = True
   \<and> shouldIncludeLibrary ''darwin'' [\<lparr>Action = ''allow'', OS_Name = ''linux''\<rparr>] = False
   \<and> shouldIncludeLibrary ''darwin'' [] = True"
  using shouldIncludeLibrary_policy [of "''darwin''"
          "[\<lparr>Action = ''allow'', OS_Name = ''''\<rparr>, \<lparr>Action = ''disallow'', OS_Name = ''osx''\<rparr>]"]
        shouldIncludeLibrary_policy [of "''darwin''" "[\<lparr>Action = ''allow'', OS_Name = ''osx''\<rparr>]"]
        shouldIncludeLibrary_policy [of "''darwin''" "[\<lparr>Action = ''allow'', OS_Name = ''linux''\<rparr>]"]
        shouldIncludeLibrary_policy [of "''darwin''" "[]"]
  by (simp add: deny_fires_def allow_fires_def rule_matches_def getOSName_def)

subsection \<open>Inheritance\<close>

lemma load_root:
  assumes "read_document os fs gameDir version = Some d" and "InheritsFrom d = ''''"
  shows "loadVersionJSON os fs gameDir version = Some ([], Inr d)"
  using assms
  by (subst loadVersionJSON.simps)
     (auto simp: read_document_def split: sum.splits)

lemma load_child:
  assumes "read_document os fs gameDir version = Some d" and "InheritsFrom d \<noteq> ''''"
    and "loadVersionJSON os fs gameDir (InheritsFrom d) = Some (pevs, Inr parent)"
  shows "loadVersionJSON os fs gameDir version =
           Some ((''version_inherits_from'', PStr (InheritsFrom d)) # pevs @
                 [(''version_merged'',
                   PMap [(''child'', version), (''parent'', InheritsFrom d)])],
                 Inr (merge_parent d parent))"
  using assms
  by (subst loadVersionJSON.simps)
     (auto simp: read_document_def split: sum.splits)

lemma merge_parent_fields:
  "Libraries (merge_parent d p) = Libraries p @ Libraries d"
  "MainClass (merge_parent d p) = (if MainClass d \<noteq> '''' then MainClass d else MainClass p)"
  "MinecraftArguments (merge_parent d p) =
     (if MinecraftArguments d \<noteq> '''' then MinecraftArguments d else MinecraftArguments p)"
  "Assets (merge_parent d p) = (if Assets d \<noteq> '''' then Assets d else Assets p)"
  "AssetIndex_ID (AssetIndex (merge_parent d p)) =
     (if AssetIndex_ID (AssetIndex d) \<noteq> '''' then AssetIndex_ID (AssetIndex d)
      else AssetIndex_ID (AssetIndex p))"
  by (simp_all add: merge_parent_def)

text \<open>
  C1. When the documents from a version to its root can all be read, loading the version
  returns, and the result has the libraries of each parent before those of its child
  (for \<open>C\<close> inheriting from \<open>B\<close> inheriting from \<open>A\<close>: those of \<open>A\<close>, then of \<open>B\<close>, then of
  \<open>C\<close>, nothing removed), and in the main class, the argument template and the assets
  identifier the value of the child when it is not empty and the value resolved for the
  parent otherwise.
\<close>

theorem loadVersionJSON_inheritance:
  "inheritance_chain os fs gameDir version chain \<Longrightarrow>
   \<exists>evs merged. loadVersionJSON os fs gameDir version = Some (evs, Inr merged) \<and>
      resolves_to chain merged"
proof (induction os fs gameDir version chain rule: inheritance_chain.induct)
  case (1 os fs gameDir version)
  then show ?case by simp
next
  case (2 os fs gameDir version d)
  then have "loadVersionJSON os fs gameDir version = Some ([], Inr d)"
    by (simp add: load_root)
  moreover have "resolves_to [d] d"
    by (simp add: resolves_to_def)
  ultimately show ?case by blast
next
  case (3 os fs gameDir version d p chain)
  then obtain pevs parent where
    parent: "loadVersionJSON os fs gameDir (InheritsFrom d) = Some (pevs, Inr parent)"
    and res: "resolves_to (p # chain) parent"
    by auto
  from 3 have doc: "read_document os fs gameDir version = Some d"
    and inh: "InheritsFrom d \<noteq> ''''"
    by simp_all
  note load = load_child [OF doc inh parent]
  have "resolves_to (d # p # chain) (merge_parent d parent)"
    using res by (simp add: resolves_to_def merge_parent_fields)
  with load show ?case by blast
qed

theorem loadVersionJSON_inheritance_witness:
  "inheritance_chain (mem_os ''linux'' chain_documents) chain_fs ''mc'' ''C''
     (map snd chain_documents) \<and>
   (\<exists>evs merged.
      loadVersionJSON (mem_os ''linux'' chain_documents) chain_fs ''mc'' ''C'' =
        Some (evs, Inr merged) \<and>
      Libraries merged = [L2, L1] \<and> MainClass merged = ''b.Main'' \<and>
      MinecraftArguments merged = ''--demo'')"
proof -
  have chain: "inheritance_chain (mem_os ''linux'' chain_documents) chain_fs ''mc'' ''C''
     (map snd chain_documents)"
    by (simp add: chain_documents_def chain_fs_def read_document_def mem_os_def document_def)
  from loadVersionJSON_inheritance [OF chain] obtain evs merged where
    "loadVersionJSON (mem_os ''linux'' chain_documents) chain_fs ''mc'' ''C'' =
       Some (evs, Inr merged)"
    and "resolves_to (map snd chain_documents) merged"
    by blast
  moreover from this(2) have "Libraries merged = [L2, L1] \<and> MainClass merged = ''b.Main'' \<and>
      MinecraftArguments merged = ''--demo''"
    by (simp add: resolves_to_def chain_documents_def document_def)
  ultimately show ?thesis using chain by blast
qed

subsection \<open>The legacy argument template\<close>

lemma ReplaceAll_Nil: "old \<noteq> [] \<Longrightarrow> ReplaceAll [] old new = []"
  by (subst ReplaceAll.simps) simp

lemma ReplaceAll_skip:
  "old \<noteq> [] \<Longrightarrow> \<not> prefix old (c # s) \<Longrightarrow> ReplaceAll (c # s) old new = c # ReplaceAll s old new"
  by (subst ReplaceAll.simps) simp

lemma ReplaceAll_match:
  "old \<noteq> [] \<Longrightarrow> ReplaceAll (old @ s) old new = new @ ReplaceAll s old new"
  by (subst ReplaceAll.simps) simp

lemma no_open_tail: "no_open (c # s) \<Longrightarrow> no_open s"
  by (cases s) simp_all

lemma no_open_free: "CHR ''$'' \<notin> set s \<Longrightarrow> no_open s"
  by (induction s rule: no_open.induct) auto

lemma ReplaceAll_literal:
  "no_open (lit @ take 1 s) \<Longrightarrow>
   ReplaceAll (lit @ s) (CHR ''$'' # CHR ''{'' # old) new =
   lit @ ReplaceAll s (CHR ''$'' # CHR ''{'' # old) new"
proof (induction lit)
  case Nil
  then show ?case by simp
next
  case (Cons c lit)
  from Cons.prems have rest: "no_open (lit @ take 1 s)"
    using no_open_tail [of c "lit @ take 1 s"] by simp
  have "\<not> prefix (CHR ''$'' # CHR ''{'' # old) (c # lit @ s)"
  proof (cases "lit @ s")
    case Nil
    then show ?thesis by simp
  next
    case (Cons d t)
    then obtain t' where "lit @ take 1 s = d # t'"
      by (cases lit; cases s) auto
    with Cons.prems have "\<not> (c = CHR ''$'' \<and> d = CHR ''{'')"
      by simp
    with Cons show ?thesis by auto
  qed
  then show ?case
    using Cons.IH [OF rest] by (simp add: ReplaceAll_skip)
qed

lemma no_open_snoc:
  "no_open s \<Longrightarrow> s = [] \<or> last s \<noteq> CHR ''$'' \<Longrightarrow> no_open (s @ [x])"
  by (induction s rule: no_open.induct) auto

lemma plain_text_before: "plain_text lit \<Longrightarrow> no_open (lit @ take 1 s)"
  by (cases s) (simp_all add: plain_text_def no_open_snoc)

lemma closing_brace_unique:
  "c \<notin> set k \<Longrightarrow> c \<notin> set k' \<Longrightarrow> prefix (k @ [c]) (k' @ c # s) \<Longrightarrow> k = k'"
proof (induction k arbitrary: k')
  case Nil
  then show ?case by (cases k') auto
next
  case (Cons a k)
  then show ?case by (cases k') auto
qed

lemma ReplaceAll_other:
  assumes "CHR ''}'' \<notin> set key" "CHR ''}'' \<notin> set k" "CHR ''$'' \<notin> set k" "k \<noteq> key"
  shows "ReplaceAll (CHR ''$'' # CHR ''{'' # k @ CHR ''}'' # s) (CHR ''$'' # CHR ''{'' # key @ ''}'') new =
         CHR ''$'' # CHR ''{'' # k @ CHR ''}'' # ReplaceAll s (CHR ''$'' # CHR ''{'' # key @ ''}'') new"
proof -
  have "\<not> prefix (CHR ''$'' # CHR ''{'' # key @ ''}'') (CHR ''$'' # CHR ''{'' # k @ CHR ''}'' # s)"
    using assms closing_brace_unique [of "CHR ''}''" key k s] by auto
  then have "ReplaceAll (CHR ''$'' # CHR ''{'' # k @ CHR ''}'' # s) (CHR ''$'' # CHR ''{'' # key @ ''}'') new =
        CHR ''$'' # ReplaceAll ((CHR ''{'' # k @ ''}'') @ s) (CHR ''$'' # CHR ''{'' # key @ ''}'') new"
    by (simp add: ReplaceAll_skip)
  also have "ReplaceAll ((CHR ''{'' # k @ ''}'') @ s) (CHR ''$'' # CHR ''{'' # key @ ''}'') new =
             (CHR ''{'' # k @ ''}'') @ ReplaceAll s (CHR ''$'' # CHR ''{'' # key @ ''}'') new"
  proof (rule ReplaceAll_literal)
    have "CHR ''$'' \<notin> set (CHR ''{'' # k @ ''}'')"
      using assms(3) by simp
    then have "plain_text (CHR ''{'' # k @ ''}'')"
      by (simp add: plain_text_def no_open_free)
    then show "no_open ((CHR ''{'' # k @ ''}'') @ take 1 s)"
      by (rule plain_text_before)
  qed
  finally show ?thesis by simp
qed

lemma ReplaceAll_render:
  "plain_pieces ps \<Longrightarrow> CHR ''}'' \<notin> set key \<Longrightarrow>
   ReplaceAll (render ps) (CHR ''$'' # CHR ''{'' # key @ ''}'') new = render (fill key new ps)"
proof (induction ps rule: plain_pieces.induct)
  case 1
  then show ?case by (simp add: ReplaceAll_Nil)
next
  case (2 s)
  then have "no_open (s @ take 1 [])" by simp
  from ReplaceAll_literal [OF this, of "key @ ''}''" new] show ?case
    by (simp add: ReplaceAll_Nil)
next
  case (3 s p ps)
  then have "plain_text s" by simp
  then have "no_open (s @ take 1 (render (p # ps)))"
    by (rule plain_text_before)
  from ReplaceAll_literal [OF this, of "key @ ''}''" new] 3 show ?case
    by simp
next
  case (4 k ps)
  show ?case
  proof (cases "k = key")
    case True
    with 4 show ?thesis
      using ReplaceAll_match [of "CHR ''$'' # CHR ''{'' # key @ ''}''" "render ps" new] by simp
  next
    case False
    with 4 show ?thesis
      by (simp add: ReplaceAll_other)
  qed
qed

lemma plain_pieces_Lit: "plain_text s \<Longrightarrow> plain_pieces ps \<Longrightarrow> plain_pieces (Lit s # ps)"
  by (cases ps) (auto simp: plain_text_def)

lemma plain_pieces_tail: "plain_pieces (p # ps) \<Longrightarrow> plain_pieces ps"
  by (cases p; cases ps) auto

lemma fill_plain:
  "plain_pieces ps \<Longrightarrow> plain_text new \<Longrightarrow> plain_pieces (fill key new ps)"
proof (induction ps)
  case Nil
  then show ?case by simp
next
  case (Cons p ps)
  then have rest: "plain_pieces (fill key new ps)"
    using plain_pieces_tail [of p ps] by simp
  show ?case
  proof (cases p)
    case (Lit s)
    show ?thesis
    proof (cases ps)
      case Nil
      with Lit Cons.prems show ?thesis by simp
    next
      case (Cons q qs)
      with Lit Cons.prems have "plain_text s" by simp
      with rest Lit show ?thesis by (simp add: plain_pieces_Lit)
    qed
  next
    case (Var k)
    with Cons.prems rest show ?thesis by (simp add: plain_pieces_Lit)
  qed
qed

lemma substitute_Nil: "substitute [] ps = render ps"
  by (induction ps rule: render.induct) auto

lemma substitute_fill: "substitute rs (fill key new ps) = substitute ((key, new) # rs) ps"
  by (induction ps rule: render.induct) (auto split: option.splits)

lemma loop_render:
  "plain_pieces ps \<Longrightarrow> list_all plain_entry rs \<Longrightarrow>
   foldl (\<lambda>template (key, value). ReplaceAll template (''${'' @ key @ ''}'') value) (render ps) rs =
   substitute rs ps"
proof (induction rs arbitrary: ps)
  case Nil
  then show ?case by (simp add: substitute_Nil)
next
  case (Cons kv rs)
  obtain key new where kv: "kv = (key, new)" by (cases kv)
  from Cons.prems(2) have rest: "list_all plain_entry rs" and "plain_entry kv"
    by simp_all
  then have plain: "CHR ''}'' \<notin> set key" "plain_text new"
    by (simp_all add: plain_entry_def kv)
  have "foldl (\<lambda>template (key, value). ReplaceAll template (''${'' @ key @ ''}'') value) (render ps) (kv # rs) =
        foldl (\<lambda>template (key, value). ReplaceAll template (''${'' @ key @ ''}'') value) (render (fill key new ps)) rs"
    using Cons.prems(1) plain(1) by (simp add: kv ReplaceAll_render)
  also have "\<dots> = substitute rs (fill key new ps)"
    using Cons.prems(1) plain rest by (intro Cons.IH fill_plain)
  finally show ?case by (simp add: kv substitute_fill)
qed

text \<open>
  C8, as the code has it. For a plain template (text that opens no placeholder, and
  placeholders \<open>${key}\<close>) and a map whose keys have no \<open>}\<close> and whose values are plain text,
  in whatever order the loop visits the map: the result is the template with every
  placeholder of a key of the map replaced by the value of that key, split on white
  space. A \<open>$\<close> that is not followed by \<open>{\<close> is text like any other. The template
  \<open>--name ${auth_player_name}\<close> with the player name \<open>Steve\<close> gives \<open>--name\<close>, \<open>Steve\<close>.
\<close>

theorem parseMinecraftArguments_substitutes:
  assumes "plain_pieces pieces" and "list_all plain_entry entries"
  shows "parseMinecraftArguments (render pieces) entries = Fields (substitute entries pieces)"
  using loop_render [OF assms] by (simp add: parseMinecraftArguments_def)

theorem parseMinecraftArguments_substitutes_witness:
  "plain_pieces [Lit ''--name '', Var ''auth_player_name''] \<and>
   list_all plain_entry
     (rev (replacements (mem_os ''linux'' []) ''Steve'' ''1.8.9'' ''mc'' ''1.8'' ''0-0'' ''0'')) \<and>
   parseMinecraftArguments ''--name ${auth_player_name}''
     (rev (replacements (mem_os ''linux'' []) ''Steve'' ''1.8.9'' ''mc'' ''1.8'' ''0-0'' ''0'')) =
   [''--name'', ''Steve'']"
proof -
  have p: "plain_pieces [Lit ''--name '', Var ''auth_player_name'']"
    by (simp add: plain_text_def)
  have e: "list_all plain_entry
     (rev (replacements (mem_os ''linux'' []) ''Steve'' ''1.8.9'' ''mc'' ''1.8'' ''0-0'' ''0''))"
    by (simp add: replacements_def plain_entry_def plain_text_def mem_os_def)
  have f: "Fields ''--name Steve'' = [''--name'', ''Steve'']"
    by (simp add: Fields_def space_width_def)
  show ?thesis
    using p e f parseMinecraftArguments_substitutes [OF p e]
    by (simp add: replacements_def)
qed

text \<open>A template with a price in dollars and a game directory with \<open>$\<close> in it are plain.\<close>

lemma stray_dollar_example:
  "plain_pieces [Lit ''--price $5 --dir '', Var ''game_directory''] \<and>
   list_all plain_entry [(''game_directory'', ''/home/$USER/mc'')] \<and>
   parseMinecraftArguments ''--price $5 --dir ${game_directory}''
     [(''game_directory'', ''/home/$USER/mc'')] = [''--price'', ''$5'', ''--dir'', ''/home/$USER/mc'']"
  by code_simp

text \<open>
  C8 as it is stated fails. With the map of \<open>PrepareCMD\<close> for a player named
  \<open>${version_name}\<close> and the version \<open>Z\<close>, the placeholder of the player name is not
  replaced by the player name when the loop visits the map in the order of the source:
  the name is replaced again in the round of \<open>version_name\<close>. In the opposite order the
  name stays; the result depends on the order that Go leaves open.
\<close>

theorem replacement_order_counterexample:
  "parseMinecraftArguments ''--username ${auth_player_name}''
     (replacements (mem_os ''linux'' []) ''${version_name}'' ''Z'' ''mc'' ''1.8'' ''0-0'' ''0'') =
     [''--username'', ''Z''] \<and>
   parseMinecraftArguments ''--username ${auth_player_name}''
     (rev (replacements (mem_os ''linux'' []) ''${version_name}'' ''Z'' ''mc'' ''1.8'' ''0-0'' ''0'')) =
     [''--username'', ''${version_name}''] \<and>
   Fields (substitute
     (replacements (mem_os ''linux'' []) ''${version_name}'' ''Z'' ''mc'' ''1.8'' ''0-0'' ''0'')
     [Lit ''--username '', Var ''auth_player_name'']) =
     [''--username'', ''${version_name}'']"
  by code_simp

subsection \<open>The classpath\<close>

lemma add_libraries_append:
  "add_libraries os fs libDir versionDir (xs @ ys) =
     (fst (add_libraries os fs libDir versionDir xs) @
      fst (add_libraries os fs libDir versionDir ys),
      snd (add_libraries os fs libDir versionDir xs) @
      snd (add_libraries os fs libDir versionDir ys))"
  by (induction xs) (simp_all add: Let_def)






text \<open>
  The paths of a group with dots. The source calls its second path the standard of
  Maven, where the jar of \<open>org.example:l2:2.0\<close> is under \<open>org/example/l2/2.0\<close>; the code
  joins the group as it is written and looks under \<open>org.example/l2/2.0\<close>, so the jar at
  the place of Maven is not found.
\<close>

lemma maven_layout_not_probed:
  "classpathParts (mem_os ''linux'' []) (scenario_fs []) ''mc'' ''X''
     (document ''X'' '''' '''' '''' [library ''org.example:l2:2.0'' '''' []]) =
     ([], [(''library_not_found'', PStr ''org.example:l2:2.0''),
           (''classpath_built'', PInt 0)])"
  "first_found (mem_os ''linux'' []) (scenario_fs [])
     (spec_candidates (mem_os ''linux'' []) ''mc/libraries'' ''mc/versions/X''
        (library ''org.example:l2:2.0'' '''' [])) =
     Some ''mc/libraries/org/example/l2/2.0/l2-2.0.jar''"
  by code_simp+

lemma add_library_reports:
  assumes "has_location lib" and "fst (add_library os fs libDir versionDir lib) = []"
  shows "\<exists>ev \<in> set (snd (add_library os fs libDir versionDir lib)). reports_missing lib ev"
  using assms
  by (auto simp: add_library_def has_location_def reports_missing_def Let_def
           split: if_splits list.splits option.splits)

text \<open>
  C5, as the code has it. A library that passes its rules, has an artifact path or a
  name of three parts or more, and adds no path to the classpath, is reported by an
  event that carries its name (\<open>library_missing\<close> or \<open>library_not_found\<close>), and the paths
  of the classpath are those of the libraries before it followed by those of the
  libraries after it: the loop goes on. The classpath is a value whatever is missing;
  the function has no error to return.
\<close>

theorem missing_library_reported:
  assumes "Libraries versionJSON = before @ lib # after"
    and "shouldIncludeLibrary (GOOS os) (Rules lib)"
    and "has_location lib"
    and "fst (add_library os fs (Join os [gameDir, ''libraries''])
                (Join os [gameDir, ''versions'', version]) lib) = []"
  shows "(\<exists>ev \<in> set (snd (classpathParts os fs gameDir version versionJSON)).
            reports_missing lib ev) \<and>
         fst (classpathParts os fs gameDir version versionJSON) =
         fst (classpathParts os fs gameDir version
                (versionJSON\<lparr>Libraries := before @ after\<rparr>))"
proof -
  let ?libDir = "Join os [gameDir, ''libraries'']"
  let ?versionDir = "Join os [gameDir, ''versions'', version]"
  obtain ev where ev: "ev \<in> set (snd (add_library os fs ?libDir ?versionDir lib))"
    "reports_missing lib ev"
    using add_library_reports [OF assms(3,4)] by blast
  have parts: "fst (add_libraries os fs ?libDir ?versionDir (before @ lib # after)) =
               fst (add_libraries os fs ?libDir ?versionDir (before @ after))"
    using assms(2,4)
    by (simp add: add_libraries_append [of os fs ?libDir ?versionDir before] Let_def)
  have "ev \<in> set (snd (add_libraries os fs ?libDir ?versionDir (before @ lib # after)))"
    using assms(2) ev(1)
    by (simp add: add_libraries_append [of os fs ?libDir ?versionDir before] Let_def)
  then have "ev \<in> set (snd (classpathParts os fs gameDir version versionJSON))"
    by (simp add: classpathParts_def Let_def assms(1))
  moreover have "fst (classpathParts os fs gameDir version versionJSON) =
         fst (classpathParts os fs gameDir version
                (versionJSON\<lparr>Libraries := before @ after\<rparr>))"
    using parts by (simp add: classpathParts_def Let_def assms(1))
  ultimately show ?thesis using ev(2) by blast
qed

theorem missing_library_reported_witness:
  "shouldIncludeLibrary (GOOS (mem_os ''linux'' []))
     (Rules (library ''org.example:gone:1.0'' '''' [])) \<and>
   has_location (library ''org.example:gone:1.0'' '''' []) \<and>
   (\<exists>ev \<in> set (snd (classpathParts (mem_os ''linux'' []) (scenario_fs []) ''mc'' ''X''
                        (document ''X'' '''' '''' ''''
                           [L2, library ''org.example:gone:1.0'' '''' [], L1]))).
      reports_missing (library ''org.example:gone:1.0'' '''' []) ev) \<and>
   fst (classpathParts (mem_os ''linux'' []) (scenario_fs []) ''mc'' ''X''
          (document ''X'' '''' '''' '''' [L2, library ''org.example:gone:1.0'' '''' [], L1])) =
     [''mc/libraries/org/example/l2/2.0/l2-2.0.jar'',
      ''mc/libraries/org/example/l1/1.0/l1-1.0.jar'']"
proof -
  let ?gone = "library ''org.example:gone:1.0'' '''' []"
  let ?os = "mem_os ''linux'' [] :: memfs os"
  let ?doc = "document ''X'' '''' '''' '''' [L2, ?gone, L1]"
  have libs: "Libraries ?doc = [L2] @ ?gone # [L1]"
    by (simp add: document_def)
  have inc: "shouldIncludeLibrary (GOOS ?os) (Rules ?gone)"
    by (simp add: shouldIncludeLibrary_def library_def)
  have loc: "has_location ?gone"
    by (simp add: has_location_def library_def)
  have gone: "fst (add_library ?os (scenario_fs []) (Join ?os [''mc'', ''libraries''])
                (Join ?os [''mc'', ''versions'', ''X'']) ?gone) = []"
    by code_simp
  have parts: "fst (classpathParts ?os (scenario_fs []) ''mc'' ''X''
                 (?doc\<lparr>Libraries := [L2] @ [L1]\<rparr>)) =
     [''mc/libraries/org/example/l2/2.0/l2-2.0.jar'',
      ''mc/libraries/org/example/l1/1.0/l1-1.0.jar'']"
    by code_simp
  show ?thesis
    using inc loc parts missing_library_reported [OF libs inc loc gone]
    by simp
qed

text \<open>
  C5 as it is stated fails: a library named \<open>optifine\<close>, with no colon and no artifact path,
  passes its rules, adds no path, and no event reports it.
\<close>

theorem malformed_coordinate_counterexample:
  "shouldIncludeLibrary ''linux'' (Rules (library ''optifine'' '''' [])) \<and>
   classpathParts (mem_os ''linux'' []) [] ''mc'' ''X''
     (document ''X'' '''' '''' '''' [library ''optifine'' '''' []]) =
     ([], [(''classpath_built'', PInt 0)])"
  by (simp add: shouldIncludeLibrary_def library_def mem_os_def classpathParts_def
        document_def add_library_def)

lemma first_found_order:
  "first_found (os\<lparr>RangeOrder := order\<rparr>) fs paths = first_found os fs paths"
  by (induction paths) simp_all

lemma add_library_order:
  "add_library (os\<lparr>RangeOrder := order\<rparr>) fs libDir versionDir lib =
   add_library os fs libDir versionDir lib"
  by (simp add: add_library_def first_found_order possiblePaths_def split: list.splits)

lemma add_libraries_order:
  "add_libraries (os\<lparr>RangeOrder := order\<rparr>) fs libDir versionDir libs =
   add_libraries os fs libDir versionDir libs"
  by (induction libs) (simp_all add: Let_def add_library_order)

text \<open>
  C9. What Go leaves open in this package is the order in which a \<open>range\<close> loop visits a
  map. \<open>buildClasspath\<close> does not depend on it: for the same file system, document, game
  directory and version, the classpath and the events are the same, in the same order,
  whatever that order is in each call.
\<close>

theorem buildClasspath_deterministic:
  "buildClasspath (os\<lparr>RangeOrder := order\<rparr>) fs gameDir version versionJSON =
   buildClasspath os fs gameDir version versionJSON"
  by (simp add: buildClasspath_def classpathParts_def add_libraries_order)

theorem buildClasspath_deterministic_witness:
  "buildClasspath ((mem_os ''linux'' [])\<lparr>RangeOrder := \<lambda>m. m\<rparr>)
     (scenario_fs [''mc/versions/X/X.jar'']) ''mc'' ''X'' (document ''X'' '''' '''' '''' [L2, L1]) =
   buildClasspath (mem_os ''linux'' [])
     (scenario_fs [''mc/versions/X/X.jar'']) ''mc'' ''X'' (document ''X'' '''' '''' '''' [L2, L1]) \<and>
   fst (buildClasspath (mem_os ''linux'' [])
     (scenario_fs [''mc/versions/X/X.jar'']) ''mc'' ''X'' (document ''X'' '''' '''' '''' [L2, L1])) =
   ''mc/libraries/org/example/l2/2.0/l2-2.0.jar:mc/libraries/org/example/l1/1.0/l1-1.0.jar:mc/versions/X/X.jar''"
proof -
  have "fst (buildClasspath (mem_os ''linux'' [])
     (scenario_fs [''mc/versions/X/X.jar'']) ''mc'' ''X'' (document ''X'' '''' '''' '''' [L2, L1])) =
   ''mc/libraries/org/example/l2/2.0/l2-2.0.jar:mc/libraries/org/example/l1/1.0/l1-1.0.jar:mc/versions/X/X.jar''"
    by code_simp
  with buildClasspath_deterministic [where os = "mem_os ''linux'' []" and order = "\<lambda>m. m"
         and fs = "scenario_fs [''mc/versions/X/X.jar'']" and gameDir = "''mc''"
         and version = "''X''" and versionJSON = "document ''X'' '''' '''' '''' [L2, L1]"]
  show ?thesis by simp
qed

text \<open>
  The arguments of the command are not so: with a player named \<open>${version_name}\<close>, the
  arguments of the legacy template differ with the order of the loop.
\<close>

lemma build_arguments_order_dependent:
  "snd (build_arguments ((mem_os ''linux'' [])\<lparr>RangeOrder := \<lambda>m. m\<rparr>) (scenario_fs [])
          ''${version_name}'' ''0'' ''0-0'' ''mc'' ''X'' ''java'' ''2G'' ''512M''
          (document ''X'' '''' ''M'' ''--username ${auth_player_name}'' []) []) \<noteq>
   snd (build_arguments (mem_os ''linux'' []) (scenario_fs [])
          ''${version_name}'' ''0'' ''0-0'' ''mc'' ''X'' ''java'' ''2G'' ''512M''
          (document ''X'' '''' ''M'' ''--username ${auth_player_name}'' []) [])"
  by code_simp

text \<open>
  Of the file system, \<open>buildClasspath\<close> reads which paths exist and nothing else, and it
  writes nothing.
\<close>

lemma add_libraries_cong:
  assumes "\<And>path. (Stat os fs path = Found) = (Stat os fs' path = Found)"
  shows "add_libraries os fs libDir versionDir libs =
         add_libraries os fs' libDir versionDir libs"
proof -
  have found: "first_found os fs paths = first_found os fs' paths" for paths
    by (induction paths) (simp_all add: assms)
  have "add_library os fs libDir versionDir lib = add_library os fs' libDir versionDir lib"
    for lib
    by (simp add: add_library_def found assms split: list.splits)
  then show ?thesis
    by (induction libs) (simp_all add: Let_def)
qed

lemma buildClasspath_reads_existence:
  assumes "\<forall>path. (Stat os fs path = Found) = (Stat os fs' path = Found)"
  shows "buildClasspath os fs gameDir version versionJSON =
         buildClasspath os fs' gameDir version versionJSON"
proof -
  from assms have same: "\<And>path. (Stat os fs path = Found) = (Stat os fs' path = Found)"
    by blast
  show ?thesis
    by (simp add: buildClasspath_def classpathParts_def add_libraries_cong [OF same] same)
qed

text \<open>
  The main jar of the version is the last path when it exists; when it does not, no main
  jar is on the classpath, whatever the parent has.
\<close>

lemma classpathParts_version_jar:
  "fst (classpathParts os fs gameDir version versionJSON) =
     fst (add_libraries os fs (Join os [gameDir, ''libraries''])
            (Join os [gameDir, ''versions'', version]) (Libraries versionJSON)) @
     (if Stat os fs (Join os [Join os [gameDir, ''versions'', version], version @ ''.jar'']) = Found
      then [Join os [Join os [gameDir, ''versions'', version], version @ ''.jar'']]
      else [])"
  by (simp add: classpathParts_def Let_def)

subsection \<open>Native libraries\<close>

lemma extraction_skipped:
  assumes "MkdirAll os fs nativesDir = (None, fs1)"
    and "ReadDir os fs1 nativesDir = (entries, None)"
    and "list_ex (isNative os) entries"
  shows "extractNativesFromLibraries os libDir nativesDir fs =
           (fs1, [(''natives_already_extracted'', PStr nativesDir)], None)"
proof -
  from assms(3) have "entries \<noteq> []" by auto
  with assms show ?thesis
    by (simp add: extractNativesFromLibraries_def)
qed

text \<open>
  C7. When the natives directory exists, so that \<open>MkdirAll\<close> leaves the file system as it
  is, and its listing has a name with the suffix of a native library (\<open>.dll\<close>, \<open>.so\<close>,
  \<open>.dylib\<close>, \<open>.jnilib\<close>, in any case of letters), the extraction succeeds, leaves the file
  system as it was, and emits \<open>natives_already_extracted\<close> and nothing else: the libraries
  directory is not walked and no archive is opened.
\<close>

theorem extraction_idempotent:
  assumes "MkdirAll os fs nativesDir = (None, fs)"
    and "ReadDir os fs nativesDir = (entries, None)"
    and "list_ex (isNative os) entries"
  shows "extractNativesFromLibraries os libDir nativesDir fs =
           (fs, [(''natives_already_extracted'', PStr nativesDir)], None)"
  using assms by (rule extraction_skipped)

theorem extraction_idempotent_witness:
  "MkdirAll (mem_os ''linux'' []) (scenario_fs []) ''mc/versions/X/natives'' =
     (None, scenario_fs []) \<and>
   ReadDir (mem_os ''linux'' []) (scenario_fs []) ''mc/versions/X/natives'' =
     ([''liblwjgl.so''], None) \<and>
   list_ex (isNative (mem_os ''linux'' [] :: memfs os)) [''liblwjgl.so''] \<and>
   extractNativesFromLibraries (mem_os ''linux'' []) ''mc/libraries'' ''mc/versions/X/natives''
     (scenario_fs []) =
     (scenario_fs [], [(''natives_already_extracted'', PStr ''mc/versions/X/natives'')], None)"
proof -
  have mkdir: "MkdirAll (mem_os ''linux'' []) (scenario_fs []) ''mc/versions/X/natives'' =
                 (None, scenario_fs [])"
    by (simp add: mem_os_def scenario_fs_def installed_def)
  have listed: "ReadDir (mem_os ''linux'' []) (scenario_fs []) ''mc/versions/X/natives'' =
                  ([''liblwjgl.so''], None)"
    by (simp add: mem_os_def scenario_fs_def installed_def mem_ReadDir_def)
  have native: "list_ex (isNative (mem_os ''linux'' [] :: memfs os)) [''liblwjgl.so'']"
    by (simp add: isNative_def mem_os_def mem_ToLower_def HasSuffix_def)
  from extraction_idempotent [OF mkdir listed native] mkdir listed native
  show ?thesis by blast
qed

text \<open>
  A second extraction after one that succeeded does nothing, whichever way the first one
  succeeded.
\<close>

lemma extraction_again:
  assumes first: "extractNativesFromLibraries os libDir nativesDir fs = (fs', evs, None)"
    and dir: "MkdirAll os fs' nativesDir = (None, fs')"
  shows "extractNativesFromLibraries os libDir nativesDir fs' =
           (fs', [(''natives_already_extracted'', PStr nativesDir)], None)"
proof -
  have "snd (ReadDir os fs' nativesDir) = None \<and>
        list_ex (isNative os) (fst (ReadDir os fs' nativesDir))"
    using first
    by (auto simp: extractNativesFromLibraries_def Let_def list_ex_iff filter_empty_conv
        split: prod.splits option.splits if_splits)
  then have "ReadDir os fs' nativesDir = (fst (ReadDir os fs' nativesDir), None)"
    and "list_ex (isNative os) (fst (ReadDir os fs' nativesDir))"
    by (simp_all add: prod_eq_iff)
  with dir show ?thesis by (rule extraction_skipped)
qed

lemma no_natives:
  assumes mkdir: "MkdirAll os fs nativesDir = (None, fs1)"
    and fresh: "\<not> (snd (ReadDir os fs1 nativesDir) = None \<and>
                    list_ex (isNative os) (fst (ReadDir os fs1 nativesDir)))"
    and platform: "nativePattern (GOOS os) = Some pattern"
    and walked: "walk_libraries os pattern nativesDir (Walk os fs1 libDir) fs1 = (fs2, wevs)"
    and listed: "ReadDir os fs2 nativesDir = (entries, None)"
    and zero: "\<not> list_ex (isNative os) entries"
  shows "extractNativesFromLibraries os libDir nativesDir fs =
           (fs2,
            (''extracting_natives_start'', PStr libDir) # wevs @
            [(''error'', PStr
               ''No native libraries were extracted - check if native JARs exist in libraries'')],
            Some NoNativesExtracted)"
proof -
  from zero have "filter (isNative os) entries = []"
    by (simp add: list_ex_iff filter_empty_conv)
  with assms show ?thesis
    by (auto simp: extractNativesFromLibraries_def Let_def)
qed

subsection \<open>The events of the steps before the arguments\<close>

lemma load_events:
  assumes "loadVersionJSON os fs gameDir version = Some loaded"
  shows "\<forall>ev \<in> set (fst loaded).
           fst ev = ''version_inherits_from'' \<or> fst ev = ''version_merged''"
  by (rule loadVersionJSON.raw_induct
        [where P = "\<lambda>os fs gameDir version loaded. \<forall>ev \<in> set (fst loaded).
                      fst ev = ''version_inherits_from'' \<or> fst ev = ''version_merged''",
         OF _ assms])
     (fastforce split: sum.splits if_splits Option.bind_splits)

lemma extract_files_events:
  "ev \<in> set (snd (extract_files os destDir files fs)) \<Longrightarrow> fst ev = ''native_extracted''"
  by (induction files arbitrary: fs) (auto simp: Let_def split: option.splits if_splits)

lemma extractJar_events:
  "ev \<in> set (fst (snd (extractJar os jarPath destDir fs))) \<Longrightarrow> fst ev = ''native_extracted''"
  by (auto simp: extractJar_def Let_def split: sum.splits dest: extract_files_events)

lemma walk_libraries_events:
  "ev \<in> set (snd (walk_libraries os pattern nativesDir calls fs)) \<Longrightarrow>
   fst ev = ''native_jar_processing'' \<or> fst ev = ''native_extracted''"
proof (induction calls arbitrary: fs)
  case Nil
  then show ?case by simp
next
  case (Cons w ws)
  show ?case
  proof (cases "walk_err w \<or> walk_IsDir w \<or> \<not> HasSuffix (walk_Name w) ''.jar'' \<or>
                \<not> (Contains (ToLower os (walk_Name w)) pattern \<or>
                   Contains (ToLower os (walk_Name w)) ''natives'')")
    case True
    then have "walk_libraries os pattern nativesDir (w # ws) fs =
               walk_libraries os pattern nativesDir ws fs"
      by (auto simp: Let_def)
    with Cons.prems Cons.IH show ?thesis by simp
  next
    case False
    with Cons.prems have
      "ev = (''native_jar_processing'', PStr (walk_Name w)) \<or>
       ev \<in> set (fst (snd (extractJar os (walk_path w) nativesDir fs))) \<or>
       ev \<in> set (snd (walk_libraries os pattern nativesDir ws
                       (fst (extractJar os (walk_path w) nativesDir fs))))"
      by (auto simp: Let_def)
    then show ?thesis
      using Cons.IH extractJar_events by fastforce
  qed
qed

lemma check_version_jar_events:
  "\<forall>ev \<in> set (fst (check_version_jar os fs gameDir version versionJSON)).
     fst ev = ''using_parent_jar'' \<or> fst ev = ''error''"
  by (simp add: check_version_jar_def Let_def)

subsection \<open>The command\<close>

text \<open>
  C6. The version is loaded and its jar (or that of its parent) is there; the natives
  directory has no native library yet, the platform is one of the three, and after the
  walk over the libraries the listing of the natives directory still has no name with
  the suffix of a native library. Then the extraction fails with \<open>NoNativesExtracted\<close>,
  \<open>PrepareCMD\<close> returns that error and no arguments, and none of its events belongs to
  the building of the classpath and of the arguments.
\<close>

theorem no_natives_aborts:
  assumes load: "loadVersionJSON os fs gameDir version = Some (evs, Inr versionJSON)"
    and jar: "snd (check_version_jar os fs gameDir version versionJSON) = Inr versionJar"
    and mkdir: "MkdirAll os fs (Join os [Join os [gameDir, ''versions'', version], ''natives'']) =
                  (None, fs1)"
    and fresh: "\<not> (snd (ReadDir os fs1
                            (Join os [Join os [gameDir, ''versions'', version], ''natives''])) = None \<and>
                    list_ex (isNative os)
                      (fst (ReadDir os fs1
                              (Join os [Join os [gameDir, ''versions'', version], ''natives'']))))"
    and platform: "nativePattern (GOOS os) = Some pattern"
    and walked: "walk_libraries os pattern
                   (Join os [Join os [gameDir, ''versions'', version], ''natives''])
                   (Walk os fs1 (Join os [gameDir, ''libraries''])) fs1 = (fs2, wevs)"
    and listed: "ReadDir os fs2 (Join os [Join os [gameDir, ''versions'', version], ''natives'']) =
                   (entries, None)"
    and zero: "\<not> list_ex (isNative os) entries"
  shows "snd (snd (extractNativesFromLibraries os (Join os [gameDir, ''libraries''])
                     (Join os [Join os [gameDir, ''versions'', version], ''natives'']) fs)) =
           Some NoNativesExtracted \<and>
         (\<exists>events.
            PrepareCMD os fs username accessToken uuid gameDir version javaPath maxRam minRam
              extraArgs = Some (fs2, events, Inl NoNativesExtracted) \<and>
            (\<forall>ev \<in> set events. fst ev \<notin> set argument_events))"
proof -
  let ?nativesDir = "Join os [Join os [gameDir, ''versions'', version], ''natives'']"
  let ?libDir = "Join os [gameDir, ''libraries'']"
  note extracted = no_natives [OF mkdir fresh platform walked listed zero]
  let ?events = "(''launch_preparation_start'', PStr version) # evs @
      [(''version_json_loaded'', PStr (ID versionJSON))] @
      fst (check_version_jar os fs gameDir version versionJSON) @
      ((''extracting_natives_start'', PStr ?libDir) # wevs @
       [(''error'', PStr
          ''No native libraries were extracted - check if native JARs exist in libraries'')]) @
      [(''error'', PStr (''Failed to extract natives: '' @ Error NoNativesExtracted))]"
  have run: "PrepareCMD os fs username accessToken uuid gameDir version javaPath maxRam minRam
               extraArgs = Some (fs2, ?events, Inl NoNativesExtracted)"
    by (simp add: PrepareCMD_def Let_def load jar extracted)
  have "\<forall>ev \<in> set evs. fst ev \<notin> set argument_events"
    using load_events [OF load] by (auto simp: argument_events_def)
  moreover have "\<forall>ev \<in> set (fst (check_version_jar os fs gameDir version versionJSON)).
                   fst ev \<notin> set argument_events"
    using check_version_jar_events [of os fs gameDir version versionJSON]
    by (auto simp: argument_events_def)
  moreover have "\<forall>ev \<in> set wevs. fst ev \<notin> set argument_events"
  proof
    fix ev
    assume "ev \<in> set wevs"
    then have "ev \<in> set (snd (walk_libraries os pattern ?nativesDir (Walk os fs1 ?libDir) fs1))"
      by (simp add: walked)
    from walk_libraries_events [OF this] show "fst ev \<notin> set argument_events"
      by (auto simp: argument_events_def)
  qed
  ultimately have "\<forall>ev \<in> set ?events. fst ev \<notin> set argument_events"
    by (auto simp: argument_events_def)
  with run extracted show ?thesis by simp
qed

text \<open>
  Version \<open>X\<close> with its jar and its libraries, none of them with natives: the natives
  directory is made, nothing is extracted, and \<open>PrepareCMD\<close> stops.
\<close>

theorem no_natives_aborts_witness:
  "PrepareCMD (mem_os ''linux'' scenario_documents) (installed [''mc/versions/X/X.jar''])
     ''Steve'' '''' '''' ''mc'' ''X'' '''' '''' '''' [] =
   Some (installed [''mc/versions/X/X.jar''] @ [(''mc/versions/X/natives'', Directory)],
     [(''launch_preparation_start'', PStr ''X''),
      (''version_inherits_from'', PStr ''Y''),
      (''version_merged'', PMap [(''child'', ''X''), (''parent'', ''Y'')]),
      (''version_json_loaded'', PStr ''X''),
      (''extracting_natives_start'', PStr ''mc/libraries''),
      (''error'', PStr
         ''No native libraries were extracted - check if native JARs exist in libraries''),
      (''error'', PStr
         ''Failed to extract natives: no native libraries were extracted - check if native JARs exist in libraries'')],
     Inl NoNativesExtracted)"
proof -
  let ?os = "mem_os ''linux'' scenario_documents"
  let ?fs = "installed [''mc/versions/X/X.jar'']"
  let ?fs1 = "?fs @ [(''mc/versions/X/natives'', Directory)]"
  let ?nativesDir = "Join ?os [Join ?os [''mc'', ''versions'', ''X''], ''natives'']"
  have load: "loadVersionJSON ?os ?fs ''mc'' ''X'' =
     Some ([(''version_inherits_from'', PStr ''Y''),
            (''version_merged'', PMap [(''child'', ''X''), (''parent'', ''Y'')])],
           Inr (document ''X'' ''Y'' ''M'' '''' [L2, L1]))"
    by code_simp
  have jar: "snd (check_version_jar ?os ?fs ''mc'' ''X'' (document ''X'' ''Y'' ''M'' '''' [L2, L1])) =
               Inr ''mc/versions/X/X.jar''"
    by code_simp
  have mkdir: "MkdirAll ?os ?fs ?nativesDir = (None, ?fs1)"
    by code_simp
  have fresh: "\<not> (snd (ReadDir ?os ?fs1 ?nativesDir) = None \<and>
                   list_ex (isNative ?os) (fst (ReadDir ?os ?fs1 ?nativesDir)))"
    by code_simp
  have platform: "nativePattern (GOOS ?os) = Some ''natives-linux''"
    by code_simp
  have walked: "walk_libraries ?os ''natives-linux'' ?nativesDir
                  (Walk ?os ?fs1 (Join ?os [''mc'', ''libraries''])) ?fs1 = (?fs1, [])"
    by code_simp
  have listed: "ReadDir ?os ?fs1 ?nativesDir = ([], None)"
    by code_simp
  have zero: "\<not> list_ex (isNative ?os) []"
    by simp
  from no_natives_aborts [OF load jar mkdir fresh platform walked listed zero,
         of "''Steve''" "''''" "''''" "''''" "''''" "''''" "[]"]
  obtain events where
    "PrepareCMD ?os ?fs ''Steve'' '''' '''' ''mc'' ''X'' '''' '''' '''' [] =
       Some (?fs1, events, Inl NoNativesExtracted)"
    by blast
  moreover have "map_option (\<lambda>r. fst (snd r))
       (PrepareCMD ?os ?fs ''Steve'' '''' '''' ''mc'' ''X'' '''' '''' '''' []) =
     Some [(''launch_preparation_start'', PStr ''X''),
      (''version_inherits_from'', PStr ''Y''),
      (''version_merged'', PMap [(''child'', ''X''), (''parent'', ''Y'')]),
      (''version_json_loaded'', PStr ''X''),
      (''extracting_natives_start'', PStr ''mc/libraries''),
      (''error'', PStr
         ''No native libraries were extracted - check if native JARs exist in libraries''),
      (''error'', PStr
         ''Failed to extract natives: no native libraries were extracted - check if native JARs exist in libraries'')]"
    by code_simp
  ultimately show ?thesis by simp
qed

text \<open>
  C10. When the version is loaded with an empty main class, its jar is there and the
  natives are extracted, \<open>PrepareCMD\<close> returns a command, and the argument after the
  classpath is \<open>net.minecraft.client.main.Main\<close>. The events are those of the steps, with
  that main class in the last one: no event tells of the substitution.
\<close>

theorem default_main_class:
  assumes load: "loadVersionJSON os fs gameDir version = Some (evs, Inr versionJSON)"
    and empty: "MainClass versionJSON = ''''"
    and jar: "snd (check_version_jar os fs gameDir version versionJSON) = Inr versionJar"
    and natives: "extractNativesFromLibraries os (Join os [gameDir, ''libraries''])
                    (Join os [Join os [gameDir, ''versions'', version], ''natives'']) fs =
                  (fs1, nevs, None)"
  shows "\<exists>rest.
           PrepareCMD os fs username accessToken uuid gameDir version javaPath maxRam minRam
             extraArgs =
           Some (fs1,
                 (''launch_preparation_start'', PStr version) # evs @
                 [(''version_json_loaded'', PStr (ID versionJSON))] @
                 fst (check_version_jar os fs gameDir version versionJSON) @ nevs @
                 (''building_classpath'', PStr (Join os [gameDir, ''libraries''])) #
                 snd (buildClasspath os fs1 gameDir version versionJSON) @
                 [(''launch_preparation_complete'',
                   PMap [(''username'', if username = '''' then ''Player'' else username),
                         (''version'', version),
                         (''javaPath'', if javaPath = '''' then ''java'' else javaPath),
                         (''mainClass'', ''net.minecraft.client.main.Main'')])],
                 Inr (if javaPath = '''' then ''java'' else javaPath,
                      [''-Xmx'' @ (if maxRam = '''' then ''2G'' else maxRam),
                       ''-Xms'' @ (if minRam = '''' then ''512M'' else minRam),
                       ''-Djava.library.path='' @
                         Abs os (Join os [Join os [gameDir, ''versions'', version], ''natives'']),
                       ''-cp'',
                       fst (buildClasspath os fs1 gameDir version versionJSON),
                       ''net.minecraft.client.main.Main''] @ rest))"
  by (simp add: PrepareCMD_def build_arguments_def Let_def load jar natives empty)

theorem default_main_class_witness:
  "MainClass (document ''Z'' '''' '''' '''' []) = '''' \<and>
   (\<exists>events rest.
      PrepareCMD (mem_os ''windows'' plain_documents) plain_fs ''Steve'' '''' '''' ''mc'' ''Z''
        '''' '''' '''' [] =
      Some (plain_fs, events,
            Inr (''java'',
                 [''-Xmx2G'', ''-Xms512M'',
                  ''-Djava.library.path=/home/player/mc/versions/Z/natives'',
                  ''-cp'', ''mc/versions/Z/Z.jar'', ''net.minecraft.client.main.Main''] @ rest)))"
proof -
  let ?os = "mem_os ''windows'' plain_documents"
  have load: "loadVersionJSON ?os plain_fs ''mc'' ''Z'' =
                Some ([], Inr (document ''Z'' '''' '''' '''' []))"
    by code_simp
  have empty: "MainClass (document ''Z'' '''' '''' '''' []) = ''''"
    by (simp add: document_def)
  have jar: "snd (check_version_jar ?os plain_fs ''mc'' ''Z'' (document ''Z'' '''' '''' '''' [])) =
               Inr ''mc/versions/Z/Z.jar''"
    by code_simp
  have natives: "extractNativesFromLibraries ?os (Join ?os [''mc'', ''libraries''])
                   (Join ?os [Join ?os [''mc'', ''versions'', ''Z''], ''natives'']) plain_fs =
                 (plain_fs, [(''natives_already_extracted'', PStr ''mc/versions/Z/natives'')], None)"
    by code_simp
  have cp: "fst (buildClasspath ?os plain_fs ''mc'' ''Z'' (document ''Z'' '''' '''' '''' [])) =
              ''mc/versions/Z/Z.jar''"
    by code_simp
  have abs: "Abs ?os (Join ?os [Join ?os [''mc'', ''versions'', ''Z''], ''natives'']) =
               ''/home/player/mc/versions/Z/natives''"
    by code_simp
  from default_main_class [OF load empty jar natives,
         of "''Steve''" "''''" "''''" "''''" "''''" "''''" "[]"]
  have "\<exists>events rest.
      PrepareCMD ?os plain_fs ''Steve'' '''' '''' ''mc'' ''Z'' '''' '''' '''' [] =
      Some (plain_fs, events,
            Inr (''java'',
                 [''-Xmx2G'', ''-Xms512M'',
                  ''-Djava.library.path=/home/player/mc/versions/Z/natives'',
                  ''-cp'', ''mc/versions/Z/Z.jar'', ''net.minecraft.client.main.Main''] @ rest))"
    by (auto simp: cp abs)
  with empty show ?thesis by blast
qed

text \<open>
  C4 fails on the code. In the scenario of the specification the jar of \<open>X\<close> is not on
  disk and the jar of its parent \<open>Y\<close> is. \<open>PrepareCMD\<close> finds the jar of the parent, emits
  \<open>using_parent_jar\<close> and assigns it to its variable \<open>versionJar\<close>, which nothing reads
  afterwards: \<open>buildClasspath\<close> looks for the jar of \<open>X\<close> alone, and the classpath of the
  command has the two libraries and no main jar.
\<close>

theorem parent_jar_missing_from_classpath:
  "PrepareCMD (mem_os ''linux'' scenario_documents) (scenario_fs [''mc/versions/Y/Y.jar''])
     ''Steve'' '''' '''' ''mc'' ''X'' '''' '''' '''' [] =
   Some (scenario_fs [''mc/versions/Y/Y.jar''],
     [(''launch_preparation_start'', PStr ''X''),
      (''version_inherits_from'', PStr ''Y''),
      (''version_merged'', PMap [(''child'', ''X''), (''parent'', ''Y'')]),
      (''version_json_loaded'', PStr ''X''),
      (''using_parent_jar'', PStr ''Y''),
      (''natives_already_extracted'', PStr ''mc/versions/X/natives''),
      (''building_classpath'', PStr ''mc/libraries''),
      (''classpath_built'', PInt 2),
      (''launch_preparation_complete'',
       PMap [(''username'', ''Steve''), (''version'', ''X''),
             (''javaPath'', ''java''), (''mainClass'', ''M'')])],
     Inr (''java'',
        [''-Xmx2G'', ''-Xms512M'',
         ''-Djava.library.path=/home/player/mc/versions/X/natives'',
         ''-cp'',
         ''mc/libraries/org/example/l2/2.0/l2-2.0.jar:mc/libraries/org/example/l1/1.0/l1-1.0.jar'',
         ''M'', ''--username'', ''Steve'', ''--version'', ''X'',
         ''--gameDir'', ''mc'', ''--assetsDir'', ''mc/assets'',
         ''--assetIndex'', [], ''--uuid'',
         ''00000000-0000-0000-0000-000000000000'', ''--accessToken'', ''0'',
         ''--userType'', ''legacy'']))"
  by code_simp

text \<open>With the jar of \<open>X\<close> on disk, the classpath is the one of the specification.\<close>

lemma own_jar_on_classpath:
  "fst (classpathParts (mem_os ''linux'' scenario_documents)
          (scenario_fs [''mc/versions/X/X.jar'']) ''mc'' ''X''
          (document ''X'' ''Y'' ''M'' '''' [L2, L1])) =
     [''mc/libraries/org/example/l2/2.0/l2-2.0.jar'',
      ''mc/libraries/org/example/l1/1.0/l1-1.0.jar'',
      ''mc/versions/X/X.jar'']"
  by code_simp

end
